theory Spec2Isabelle
  imports Main
begin

section \<open>JavaScript values reaching the plugin\<close>

text \<open>
  The request body is whatever \<^verbatim>\<open>req.json()\<close> yields: a parsed JSON value. A string is
  well-formed Unicode text, held as its UTF-8 bytes, the way the log file holds it. The
  value \<^verbatim>\<open>undefined\<close> is \<open>None\<close> of an option. An object lists its own properties in the
  order JavaScript enumerates them, each key once. An exception is a value of \<open>error\<close>;
  the limits of memory and stack are left out.
\<close>

datatype error = TypeError | RangeError | ServeError | ForwardError

text \<open>A number is given by its decimal form: \<open>Num neg s e\<close> is \<open>s\<close> times ten to the
  power \<open>e\<close>, negative when \<open>neg\<close> holds (so \<open>Num False 42 0\<close> is 42, \<open>Num False 5 (- 1)\<close> is
  0.5, \<open>Num False 1 21\<close> is ten to the power 21, and \<open>s = 0\<close> is zero of either sign);
  \<open>Infinite neg\<close> is what a literal too large for a double parses to. A double is the
  number of its shortest decimal form, which is the form its printing starts from.\<close>

datatype jsnumber = Num bool nat int | Infinite bool

fun is_zero :: "jsnumber \<Rightarrow> bool" where
  "is_zero (Num neg s e) = (s = 0)"
| "is_zero (Infinite neg) = False"

datatype json =
    JNull
  | JBool bool
  | JNum jsnumber
  | JStr string
  | JArr "json list"
  | JObj "(string \<times> json) list"

text \<open>Truthiness (\<^verbatim>\<open>!x\<close> is its negation): the falsy parsed values are
  \<^verbatim>\<open>null\<close>, \<^verbatim>\<open>false\<close>, zero and the empty string.\<close>

fun truthy :: "json \<Rightarrow> bool" where
  "truthy JNull = False"
| "truthy (JBool b) = b"
| "truthy (JNum n) = (\<not> is_zero n)"
| "truthy (JStr s) = (s \<noteq> [])"
| "truthy (JArr xs) = True"
| "truthy (JObj kvs) = True"

text \<open>Truthiness of a value that may be \<^verbatim>\<open>undefined\<close>.\<close>

fun truthy_opt :: "json option \<Rightarrow> bool" where
  "truthy_opt None = False"
| "truthy_opt (Some v) = truthy v"

text \<open>Property access \<^verbatim>\<open>v.k\<close> for the keys the handler reads (\<^verbatim>\<open>label\<close>, \<^verbatim>\<open>data\<close>): only an
  object can own them; on any other non-null value the access gives \<^verbatim>\<open>undefined\<close>.\<close>

fun get_prop :: "json \<Rightarrow> string \<Rightarrow> json option" where
  "get_prop (JObj kvs) k = map_of kvs k"
| "get_prop v k = None"

text \<open>A natural number in decimal.\<close>

fun show_nat :: "nat \<Rightarrow> string" where
  "show_nat n =
     (if n < 10 then [''0123456789'' ! n]
      else show_nat (n div 10) @ [''0123456789'' ! (n mod 10)])"

declare show_nat.simps [simp del]

text \<open>\<^verbatim>\<open>Number.prototype.toString\<close>. The significand first loses its final zeros; with
  \<open>k\<close> digits left and \<open>n\<close> of them before the decimal point (\<open>n\<close> may exceed \<open>k\<close> or be
  negative), the number prints in full for \<open>n\<close> from -5 to 21 and with an exponent
  otherwise.\<close>

fun strip_zeros :: "nat \<Rightarrow> int \<Rightarrow> nat \<times> int" where
  "strip_zeros s e =
     (if s \<noteq> 0 \<and> s mod 10 = 0 then strip_zeros (s div 10) (e + 1) else (s, e))"

declare strip_zeros.simps [simp del]

definition number_body :: "nat \<Rightarrow> int \<Rightarrow> string" where
  "number_body s e =
     (let digits = show_nat s; k = int (length digits); n = e + k in
      if k \<le> n \<and> n \<le> 21 then digits @ replicate (nat (n - k)) CHR ''0''
      else if 0 < n \<and> n \<le> 21 then take (nat n) digits @ ''.'' @ drop (nat n) digits
      else if - 6 < n \<and> n \<le> 0 then ''0.'' @ replicate (nat (- n)) CHR ''0'' @ digits
      else (if k = 1 then digits else take 1 digits @ ''.'' @ drop 1 digits)
           @ ''e'' @ (if 0 \<le> n - 1 then ''+'' else ''-'') @ show_nat (nat \<bar>n - 1\<bar>))"

fun number_to_string :: "jsnumber \<Rightarrow> string" where
  "number_to_string (Infinite neg) = (if neg then ''-Infinity'' else ''Infinity'')"
| "number_to_string (Num neg s e) =
     (if s = 0 then ''0''
      else (if neg then ''-'' else []) @
           (case strip_zeros s e of (s', e') \<Rightarrow> number_body s' e'))"

fun join :: "string \<Rightarrow> string list \<Rightarrow> string" where
  "join sep [] = []"
| "join sep [x] = x"
| "join sep (x # y # ys) = x @ sep @ join sep (y # ys)"

text \<open>The results of a sequence of conversions: the first exception ends it.\<close>

fun collect :: "(error + 'a) list \<Rightarrow> error + 'a list" where
  "collect [] = Inr []"
| "collect (Inl err # rs) = Inl err"
| "collect (Inr x # rs) = (case collect rs of Inl err \<Rightarrow> Inl err | Inr xs \<Rightarrow> Inr (x # xs))"

text \<open>The string conversion of a value (\<^verbatim>\<open>String(v)\<close>). An object is converted by its
  \<^verbatim>\<open>toString\<close>: a parsed object that owns a \<^verbatim>\<open>toString\<close> property owns one that cannot
  be called, \<^verbatim>\<open>valueOf\<close> gives no primitive either, and the conversion throws a
  TypeError; any other object prints as \<^verbatim>\<open>[object Object]\<close>. An array joins the
  conversions of its elements, \<^verbatim>\<open>null\<close> elements printing as the empty string.\<close>

primrec js_to_string :: "json \<Rightarrow> error + string" where
  "js_to_string JNull = Inr ''null''"
| "js_to_string (JBool b) = Inr (if b then ''true'' else ''false'')"
| "js_to_string (JNum n) = Inr (number_to_string n)"
| "js_to_string (JStr s) = Inr s"
| "js_to_string (JArr xs) =
     (case collect (map (\<lambda>(x, r). if x = JNull then Inr [] else r)
                        (zip xs (map js_to_string xs))) of
        Inl err \<Rightarrow> Inl err
      | Inr ss \<Rightarrow> Inr (join '','' ss))"
| "js_to_string (JObj kvs) =
     (if map_of kvs ''toString'' \<noteq> None then Inl TypeError else Inr ''[object Object]'')"

text \<open>The values whose string conversion throws: an object that owns a \<^verbatim>\<open>toString\<close>
  property, and an array that holds such a value.\<close>

primrec unconvertible :: "json \<Rightarrow> bool" where
  "unconvertible JNull = False"
| "unconvertible (JBool b) = False"
| "unconvertible (JNum n) = False"
| "unconvertible (JStr s) = False"
| "unconvertible (JArr xs) = list_ex (\<lambda>b. b) (map unconvertible xs)"
| "unconvertible (JObj kvs) = (map_of kvs ''toString'' \<noteq> None)"

text \<open>\<^verbatim>\<open>`${v}`\<close>: what a template literal inserts for a value that may be
  \<^verbatim>\<open>undefined\<close>.\<close>

fun template :: "json option \<Rightarrow> error + string" where
  "template None = Inr ''undefined''"
| "template (Some v) = js_to_string v"

definition hex_digit :: "nat \<Rightarrow> char" where
  "hex_digit d = ''0123456789abcdef'' ! d"

text \<open>One byte inside a JSON string literal (QuoteJSONString): the quote, the backslash
  and the control characters are escaped, every other byte stands for itself.\<close>

definition quote_char :: "char \<Rightarrow> string" where
  \<open>quote_char c =
     (if c = CHR 0x22 then [CHR 0x5C, CHR 0x22]
      else if c = CHR 0x5C then [CHR 0x5C, CHR 0x5C]
      else if c = CHR 0x08 then [CHR 0x5C, CHR ''b'']
      else if c = CHR 0x0C then [CHR 0x5C, CHR ''f'']
      else if c = CHR 0x0A then [CHR 0x5C, CHR ''n'']
      else if c = CHR 0x0D then [CHR 0x5C, CHR ''r'']
      else if c = CHR 0x09 then [CHR 0x5C, CHR ''t'']
      else if (of_char c :: nat) < 32
        then [CHR 0x5C, CHR ''u'', CHR ''0'', CHR ''0'',
              hex_digit (of_char c div 16), hex_digit (of_char c mod 16)]
      else [c])\<close>

definition quote_string :: "string \<Rightarrow> string" where
  "quote_string s = [CHR 0x22] @ concat (map quote_char s) @ [CHR 0x22]"

text \<open>\<^verbatim>\<open>JSON.stringify\<close> of a parsed value: it never throws on one. A number that is
  not finite is written \<^verbatim>\<open>null\<close>.\<close>

fun number_to_json :: "jsnumber \<Rightarrow> string" where
  "number_to_json (Infinite neg) = ''null''"
| "number_to_json (Num neg s e) = number_to_string (Num neg s e)"

primrec JSON_stringify :: "json \<Rightarrow> string" where
  "JSON_stringify JNull = ''null''"
| "JSON_stringify (JBool b) = (if b then ''true'' else ''false'')"
| "JSON_stringify (JNum n) = number_to_json n"
| "JSON_stringify (JStr s) = quote_string s"
| "JSON_stringify (JArr xs) = ''['' @ join '','' (map JSON_stringify xs) @ '']''"
| "JSON_stringify (JObj kvs) =
     ''{'' @ join '','' (map (\<lambda>(k, s). quote_string k @ '':'' @ s)
                          (map (map_prod id JSON_stringify) kvs)) @ ''}''"

section \<open>Configuration\<close>

record PluginConfig =
  endpoint :: string
  healthEndpoint :: string
  logDir :: string
  logFileName :: string
  authProvider :: string
  authLabel :: string
  authPromptMessage :: string

definition defaultConfig :: PluginConfig where
  "defaultConfig = \<lparr>
     endpoint = ''/debug'',
     healthEndpoint = ''/health'',
     logDir = ''.opencode'',
     logFileName = ''debug.log'',
     authProvider = ''ngrok'',
     authLabel = ''Configure Ngrok Token'',
     authPromptMessage = ''Enter your Ngrok Authtoken'' \<rparr>"

definition config :: PluginConfig where
  "config = defaultConfig"

section \<open>The log file\<close>

text \<open>The file system: a path has a content or does not exist. A content is the text
  \<^verbatim>\<open>file.text()\<close> returns for the file and \<^verbatim>\<open>Bun.write\<close> stores in it.\<close>

type_synonym fs = "string \<rightharpoonup> string"

text \<open>The line \<^verbatim>\<open>appendToLog\<close> builds. The timestamp is the clock's
  \<^verbatim>\<open>toISOString()\<close> at the call; the label is whatever value the caller passes, put into
  the line by the template literal, whose conversion may throw; \<open>data = None\<close> is
  \<^verbatim>\<open>data === undefined\<close>.\<close>

definition log_line :: "string \<Rightarrow> json option \<Rightarrow> json option \<Rightarrow> error + string" where
  "log_line timestamp label data =
     (case template label of
        Inl err \<Rightarrow> Inl err
      | Inr text \<Rightarrow>
          Inr (case data of
                 Some d \<Rightarrow>
                   ''['' @ timestamp @ ''] '' @ text @ '' | '' @ JSON_stringify d @ ''\<newline>''
               | None \<Rightarrow> ''['' @ timestamp @ ''] '' @ text @ ''\<newline>''))"

text \<open>\<^verbatim>\<open>appendToLog\<close>, run without interruption: build the line, read the whole file (the
  empty string when it does not exist), write back the old content followed by the line.
  When the line cannot be built no file is touched.\<close>

definition appendToLog ::
  "string \<Rightarrow> string \<Rightarrow> json option \<Rightarrow> json option \<Rightarrow> fs \<Rightarrow> error + fs" where
  "appendToLog timestamp logPath label data fsys =
     (case log_line timestamp label data of
        Inl err \<Rightarrow> Inl err
      | Inr line \<Rightarrow>
          (let existing = (case fsys logPath of Some text \<Rightarrow> text | None \<Rightarrow> [])
           in Inr (fsys(logPath \<mapsto> existing @ line))))"

subsection \<open>Appends in flight\<close>

text \<open>\<^verbatim>\<open>appendToLog\<close> suspends at each \<^verbatim>\<open>await\<close>: at \<^verbatim>\<open>file.exists()\<close>, at
  \<^verbatim>\<open>file.text()\<close> when the file exists, and at \<^verbatim>\<open>Bun.write\<close>. A call in flight is at
  one of these points, holding the local variables it has computed so far; the line is
  built before the first \<^verbatim>\<open>await\<close>, and a call whose line cannot be built is rejected at
  once.\<close>

datatype append_task =
    AwaitExists string
  | AwaitText string
  | AwaitWrite string string
  | Finished
  | Rejected

definition start_append :: "string \<Rightarrow> json option \<Rightarrow> json option \<Rightarrow> append_task" where
  "start_append timestamp label data =
     (case log_line timestamp label data of
        Inl err \<Rightarrow> Rejected
      | Inr line \<Rightarrow> AwaitExists line)"

text \<open>One file operation of one call completes and the call runs on to its next
  \<^verbatim>\<open>await\<close>.\<close>

fun append_step :: "string \<Rightarrow> append_task \<Rightarrow> fs \<Rightarrow> append_task \<times> fs" where
  "append_step logPath (AwaitExists line) fsys =
     (if fsys logPath \<noteq> None then (AwaitText line, fsys) else (AwaitWrite [] line, fsys))"
| "append_step logPath (AwaitText line) fsys =
     (case fsys logPath of
        Some text \<Rightarrow> (AwaitWrite text line, fsys)
      | None \<Rightarrow> (Rejected, fsys))"
| "append_step logPath (AwaitWrite existing line) fsys =
     (Finished, fsys(logPath \<mapsto> existing @ line))"
| "append_step logPath Finished fsys = (Finished, fsys)"
| "append_step logPath Rejected fsys = (Rejected, fsys)"

text \<open>The event loop resumes the calls in some order: a schedule names, step by step,
  the call whose pending file operation completes next.\<close>

fun run_schedule :: "string \<Rightarrow> nat list \<Rightarrow> append_task list \<times> fs \<Rightarrow> append_task list \<times> fs" where
  "run_schedule logPath [] (tasks, fsys) = (tasks, fsys)"
| "run_schedule logPath (i # sched) (tasks, fsys) =
     (if i < length tasks
      then (case append_step logPath (tasks ! i) fsys of
              (t, fsys') \<Rightarrow> run_schedule logPath sched (tasks[i := t], fsys'))
      else run_schedule logPath sched (tasks, fsys))"

subsection \<open>Reading the log\<close>

text \<open>The white space \<^verbatim>\<open>String.prototype.trim\<close> removes, each character as its UTF-8
  bytes: TAB, LF, VT, FF, CR, the space, U+00A0, U+1680, U+2000 to U+200A, U+2028,
  U+2029, U+202F, U+205F, U+3000 and U+FEFF.\<close>

definition white_space :: "string list" where
  "white_space =
     [[CHR 0x09], [CHR 0x0A], [CHR 0x0B], [CHR 0x0C], [CHR 0x0D], [CHR 0x20],
      [CHR 0xC2, CHR 0xA0],
      [CHR 0xE1, CHR 0x9A, CHR 0x80],
      [CHR 0xE2, CHR 0x80, CHR 0x80], [CHR 0xE2, CHR 0x80, CHR 0x81],
      [CHR 0xE2, CHR 0x80, CHR 0x82], [CHR 0xE2, CHR 0x80, CHR 0x83],
      [CHR 0xE2, CHR 0x80, CHR 0x84], [CHR 0xE2, CHR 0x80, CHR 0x85],
      [CHR 0xE2, CHR 0x80, CHR 0x86], [CHR 0xE2, CHR 0x80, CHR 0x87],
      [CHR 0xE2, CHR 0x80, CHR 0x88], [CHR 0xE2, CHR 0x80, CHR 0x89],
      [CHR 0xE2, CHR 0x80, CHR 0x8A],
      [CHR 0xE2, CHR 0x80, CHR 0xA8], [CHR 0xE2, CHR 0x80, CHR 0xA9],
      [CHR 0xE2, CHR 0x80, CHR 0xAF],
      [CHR 0xE2, CHR 0x81, CHR 0x9F],
      [CHR 0xE3, CHR 0x80, CHR 0x80],
      [CHR 0xEF, CHR 0xBB, CHR 0xBF]]"

text \<open>Removing from the front of a text every leading occurrence of one of the given
  byte sequences.\<close>

function strip :: "string list \<Rightarrow> string \<Rightarrow> string" where
  "strip ws s =
     (case find (\<lambda>w. w \<noteq> [] \<and> take (length w) s = w) ws of
        None \<Rightarrow> s
      | Some w \<Rightarrow> strip ws (drop (length w) s))"
  by pat_completeness auto
termination
proof (relation "measure (\<lambda>(ws, s). length s)")
  show "wf (measure (\<lambda>(ws, s). length s))" by simp
next
  fix ws :: "string list" and s w :: string
  assume "find (\<lambda>w. w \<noteq> [] \<and> take (length w) s = w) ws = Some w"
  then have "w \<noteq> []" and "take (length w) s = w"
    by (auto simp add: find_Some_iff)
  then have "s \<noteq> []" by auto
  with \<open>w \<noteq> []\<close> show "((ws, drop (length w) s), (ws, s)) \<in> measure (\<lambda>(ws, s). length s)"
    by simp
qed

declare strip.simps [simp del]

text \<open>\<^verbatim>\<open>String.prototype.trim\<close>: white space goes from the front, and, read backwards,
  from the end.\<close>

definition trim :: "string \<Rightarrow> string" where
  "trim s = rev (strip (map rev white_space) (rev (strip white_space s)))"

text \<open>A text begins, or ends, with a white-space character.\<close>

definition begins_with_space :: "string \<Rightarrow> bool" where
  "begins_with_space s \<longleftrightarrow> list_ex (\<lambda>w. take (length w) s = w) white_space"

definition ends_with_space :: "string \<Rightarrow> bool" where
  "ends_with_space s \<longleftrightarrow> list_ex (\<lambda>w. take (length w) (rev s) = rev w) white_space"

text \<open>\<^verbatim>\<open>s.split("\n")\<close>: never empty, the empty string gives one empty piece.\<close>

fun split_nl :: "string \<Rightarrow> string list" where
  "split_nl [] = [[]]"
| "split_nl (c # cs) =
     (if c = CHR 0x0A then [] # split_nl cs
      else (case split_nl cs of
              l # ls \<Rightarrow> (c # l) # ls
            | [] \<Rightarrow> [[c]]))"

text \<open>\<^verbatim>\<open>content.trim().split("\n").filter(Boolean)\<close>.\<close>

definition log_lines :: "string \<Rightarrow> string list" where
  "log_lines content = filter (\<lambda>l. l \<noteq> []) (split_nl (trim content))"

text \<open>\<^verbatim>\<open>xs.slice(start)\<close> for an integer start: a negative start counts from the end
  and stops at the beginning.\<close>

definition slice :: "int \<Rightarrow> 'a list \<Rightarrow> 'a list" where
  "slice start xs =
     (if start < 0 then drop (nat (max (int (length xs) + start) 0)) xs
      else drop (nat start) xs)"

text \<open>\<^verbatim>\<open>args.tail && args.tail > 0 ? lines.slice(-args.tail) : lines\<close>, the tail an
  optional integer.\<close>

definition tail_output :: "int option \<Rightarrow> string list \<Rightarrow> string list" where
  "tail_output tail lines =
     (case tail of
        Some t \<Rightarrow> if t \<noteq> 0 \<and> t > 0 then slice (- t) lines else lines
      | None \<Rightarrow> lines)"

section \<open>The debug server\<close>

record request =
  req_method :: string
  req_pathname :: string
  req_json :: "json option"

record response =
  status :: nat
  headers :: "(string \<times> string) list"
  body :: "string option"

definition jsonResponse :: "json \<Rightarrow> nat \<Rightarrow> response" where
  "jsonResponse data st =
     \<lparr> status = st, headers = [(''Content-Type'', ''application/json'')],
       body = Some (JSON_stringify data) \<rparr>"

text \<open>The \<^verbatim>\<open>fetch\<close> handler of \<^verbatim>\<open>createDebugServer\<close>, its append run without
  interruption. \<open>req_json\<close> is the outcome of \<^verbatim>\<open>req.json()\<close>, \<open>None\<close> when it rejects; the
  handler turns a rejection into \<^verbatim>\<open>null\<close>. \<^verbatim>\<open>!body\<close> is tested first, so \<^verbatim>\<open>body.label\<close>
  is never read from \<^verbatim>\<open>null\<close>. \<open>headers\<close> are the headers the code sets. When the append
  throws, the handler ends with the exception (\<open>Inl\<close>) and returns no response of its
  own.\<close>

definition createDebugServer_fetch ::
  "string \<Rightarrow> string \<Rightarrow> request \<Rightarrow> fs \<Rightarrow> (error + response) \<times> fs" where
  "createDebugServer_fetch logPath timestamp req fsys =
     (if req_pathname req = healthEndpoint config \<and> req_method req = ''GET''
      then (Inr (jsonResponse (JObj [(''status'', JStr ''ok'')]) 200), fsys)
      else if req_pathname req = endpoint config \<and> req_method req = ''POST''
      then (let body = (case req_json req of Some v \<Rightarrow> v | None \<Rightarrow> JNull) in
            if \<not> truthy body \<or> \<not> truthy_opt (get_prop body ''label'')
            then (Inr \<lparr> status = 400, headers = [],
                        body = Some ''Missing required field: label'' \<rparr>, fsys)
            else (case appendToLog timestamp logPath (get_prop body ''label'')
                         (get_prop body ''data'') fsys of
                    Inl err \<Rightarrow> (Inl err, fsys)
                  | Inr fsys' \<Rightarrow>
                      (Inr (jsonResponse (JObj [(''received'', JBool True)]) 200), fsys')))
      else (Inr \<lparr> status = 404, headers = [], body = Some ''Not found'' \<rparr>, fsys))"

subsection \<open>The standalone server of the examples\<close>

text \<open>\<^verbatim>\<open>example/standalone-server.ts\<close>, which the examples' README describes as mirroring
  the plugin's behaviour. Its log path and routes are fixed. \<^verbatim>\<open>Response.json\<close> adds the
  JSON content type to the headers it is given.\<close>

definition corsHeaders :: "(string \<times> string) list" where
  "corsHeaders =
     [(''Access-Control-Allow-Origin'', ''*''),
      (''Access-Control-Allow-Methods'', ''GET, POST, OPTIONS''),
      (''Access-Control-Allow-Headers'', ''Content-Type'')]"

definition LOG_FILE :: string where
  "LOG_FILE = ''.opencode/debug.log''"

definition standalone_fetch ::
  "string \<Rightarrow> request \<Rightarrow> fs \<Rightarrow> (error + response) \<times> fs" where
  "standalone_fetch timestamp req fsys =
     (if req_method req = ''OPTIONS''
      then (Inr \<lparr> status = 204, headers = corsHeaders, body = None \<rparr>, fsys)
      else if req_pathname req = ''/health'' \<and> req_method req = ''GET''
      then (Inr \<lparr> status = 200,
                  headers = corsHeaders @ [(''Content-Type'', ''application/json'')],
                  body = Some (JSON_stringify (JObj [(''status'', JStr ''ok'')])) \<rparr>, fsys)
      else if req_pathname req = ''/debug'' \<and> req_method req = ''POST''
      then (let body = (case req_json req of Some v \<Rightarrow> v | None \<Rightarrow> JNull) in
            if \<not> truthy body \<or> \<not> truthy_opt (get_prop body ''label'')
            then (Inr \<lparr> status = 400, headers = corsHeaders,
                        body = Some ''Missing required field: label'' \<rparr>, fsys)
            else (case appendToLog timestamp LOG_FILE (get_prop body ''label'')
                         (get_prop body ''data'') fsys of
                    Inl err \<Rightarrow> (Inl err, fsys)
                  | Inr fsys' \<Rightarrow>
                      (Inr \<lparr> status = 200,
                             headers = corsHeaders @ [(''Content-Type'', ''application/json'')],
                             body = Some (JSON_stringify
                                            (JObj [(''received'', JBool True)])) \<rparr>,
                       fsys')))
      else (Inr \<lparr> status = 404, headers = corsHeaders, body = Some ''Not found'' \<rparr>, fsys))"

section \<open>The session\<close>

text \<open>What the plugin finds outside itself: the environment variable; what
  \<^verbatim>\<open>Bun.connect\<close> to \<^verbatim>\<open>127.0.0.1\<close> does for a port number (the connection opens, or it
  fails, or the call throws, as it does for a number that is no port: one outside 0 to
  65535); what \<^verbatim>\<open>Bun.serve\<close> does when asked for a port (the port it listens on, or
  \<open>None\<close> when it throws; asked for port 0 it picks one); and what \<^verbatim>\<open>ngrok.forward\<close>
  does for a port and a token. A port argument is any number the tool is given.\<close>

datatype connect_result = Opens | Fails | Throws

datatype forward_result = ForwardRejects | Listener "string option"

record env =
  NGROK_AUTHTOKEN :: "string option"
  connect :: "jsnumber \<Rightarrow> connect_result"
  serve :: "jsnumber \<Rightarrow> nat option"
  ngrok_forward :: "jsnumber \<Rightarrow> string \<Rightarrow> forward_result"

record server_handle =
  server_port :: nat
  server_logPath :: string

record tunnel_handle =
  tunnel_url :: string

text \<open>The module-level variables, and the files.\<close>

record plugin =
  server :: "server_handle option"
  tunnel :: "tunnel_handle option"
  debugModeActive :: bool
  activeDebugUrl :: "string option"
  storedNgrokToken :: "string option"
  files :: fs

text \<open>The variables as the module initialises them, over given files.\<close>

definition initial_plugin :: "fs \<Rightarrow> plugin" where
  "initial_plugin fsys =
     \<lparr> server = None, tunnel = None, debugModeActive = False, activeDebugUrl = None,
       storedNgrokToken = None, files = fsys \<rparr>"

definition generateFetchSnippet :: "string \<Rightarrow> string \<Rightarrow> string \<Rightarrow> string" where
  \<open>generateFetchSnippet url label dataExpr =
     ''fetch("'' @ url @
     ''", { method: "POST", headers: { "Content-Type": "application/json" }, body: JSON.stringify({ label: "''
     @ label @ ''", data: '' @ dataExpr @ '' }) }).catch(() => {});''\<close>

text \<open>\<^verbatim>\<open>isPortInUse\<close>: true when the connection opens, false when it fails (the
  \<^verbatim>\<open>error\<close> callback, or a rejected promise of \<^verbatim>\<open>Bun.connect\<close>). When \<^verbatim>\<open>Bun.connect\<close>
  throws, it throws inside the promise's executor, before \<^verbatim>\<open>.catch\<close> is reached: the
  promise of \<^verbatim>\<open>isPortInUse\<close> is rejected.\<close>

definition isPortInUse :: "env \<Rightarrow> jsnumber \<Rightarrow> error + bool" where
  "isPortInUse e port =
     (case connect e port of
        Opens \<Rightarrow> Inr True
      | Fails \<Rightarrow> Inr False
      | Throws \<Rightarrow> Inl RangeError)"

text \<open>The port an ephemeral test server gets: \<^verbatim>\<open>Bun.serve\<close> on port 0, stopped as soon
  as its port is read; a \<^verbatim>\<open>Bun.serve\<close> that throws ends the call with the exception.\<close>

definition ephemeral_port :: "env \<Rightarrow> error + jsnumber" where
  "ephemeral_port e =
     (case serve e (Num False 0 0) of
        None \<Rightarrow> Inl ServeError
      | Some port \<Rightarrow> Inr (Num False port 0))"

text \<open>\<^verbatim>\<open>findAvailablePort\<close>. A rejected \<^verbatim>\<open>isPortInUse\<close> ends the call before the
  ephemeral server is tried.\<close>

definition findAvailablePort :: "env \<Rightarrow> jsnumber option \<Rightarrow> error + jsnumber" where
  "findAvailablePort e preferred =
     (case preferred of
        Some p \<Rightarrow>
          (case isPortInUse e p of
             Inl err \<Rightarrow> Inl err
           | Inr used \<Rightarrow> if \<not> used then Inr p else ephemeral_port e)
      | None \<Rightarrow> ephemeral_port e)"

definition buildDebugUrl :: "string \<Rightarrow> string" where
  "buildDebugUrl baseUrl = baseUrl @ endpoint config"

text \<open>\<^verbatim>\<open>startTunnel\<close>. \<open>ForwardRejects\<close> stands for a rejected \<^verbatim>\<open>ngrok.forward\<close> (or a
  rejected import of the module): the function has no handler for it, so the call ends
  with the exception. \<open>Listener u\<close> is a listener whose \<^verbatim>\<open>url()\<close> is \<open>u\<close>.\<close>

definition startTunnel ::
  "env \<Rightarrow> jsnumber \<Rightarrow> string option \<Rightarrow> plugin \<Rightarrow> (error + string option) \<times> plugin" where
  "startTunnel e port authtoken s =
     (let token = (case NGROK_AUTHTOKEN e of Some t \<Rightarrow> Some t | None \<Rightarrow> authtoken) in
      case token of
        None \<Rightarrow> (Inr None, s)
      | Some t \<Rightarrow>
          if t = [] then (Inr None, s)
          else (case ngrok_forward e port t of
                  ForwardRejects \<Rightarrow> (Inl ForwardError, s)
                | Listener None \<Rightarrow> (Inr None, s)
                | Listener (Some url) \<Rightarrow>
                    if url = [] then (Inr None, s)
                    else (Inr (Some url), s\<lparr>tunnel := Some \<lparr>tunnel_url = url\<rparr>\<rparr>)))"

text \<open>\<^verbatim>\<open>stopServer\<close>. Closing the tunnel may fail; the failure is swallowed.\<close>

definition stopServer :: "plugin \<Rightarrow> plugin" where
  "stopServer s =
     (let s1 = (if tunnel s \<noteq> None then s\<lparr>tunnel := None\<rparr> else s) in
      if server s1 \<noteq> None then s1\<lparr>server := None\<rparr> else s1)"

definition getLogPath :: "string \<Rightarrow> string" where
  "getLogPath directory = directory @ ''/'' @ logDir config @ ''/'' @ logFileName config"

definition getLogDisplayPath :: string where
  "getLogDisplayPath = logDir config @ ''/'' @ logFileName config"

text \<open>The URL of the running session, as \<^verbatim>\<open>debug_start\<close> (when a server exists) and
  \<^verbatim>\<open>debug_status\<close> both compute it: the tunnel's URL when there is one, else the local
  one.\<close>

definition effective_url :: "server_handle \<Rightarrow> tunnel_handle option \<Rightarrow> string" where
  "effective_url srv tun =
     (let localUrl = buildDebugUrl (''http://localhost:'' @ show_nat (server_port srv));
          publicUrl = (case tun of
                         Some t \<Rightarrow> if tunnel_url t \<noteq> [] then Some (buildDebugUrl (tunnel_url t))
                                   else None
                       | None \<Rightarrow> None)
      in case publicUrl of Some u \<Rightarrow> u | None \<Rightarrow> localUrl)"

definition already_running_message :: "string \<Rightarrow> string" where
  "already_running_message url =
     ''Debug server already running!\<newline>\<newline>Debug URL: '' @ url @
     ''\<newline>\<newline>**Next Step:** Insert fetch() calls in the code where you need to capture data, then ask the user to reproduce the issue.''"

definition started_message :: "string \<Rightarrow> string" where
  \<open>started_message url =
     join ''\<newline>''
       [''# Debug Mode Started\<newline>'',
        ''**Debug URL:** '' @ url,
        ''**Log File:** '' @ getLogDisplayPath,
        [],
        ''## Next Steps:'',
        ''1. **Instrument the code** - Insert fetch() calls at key locations'',
        ''2. **Hand back to user** - Ask them to reproduce the issue'',
        ''3. **Read logs** - Use debug_read to analyze captured data'',
        [],
        ''## Fetch Call Template:'',
        ''```javascript'',
        generateFetchSnippet url ''label-here'' ''{ key: value }'',
        ''```'',
        [],
        ''## Placement Guidelines:'',
        ''- Function entry/exit points'',
        ''- Before/after async operations'',
        ''- Inside catch blocks for errors'',
        ''- State changes and variable mutations'',
        ''- Conditional branches to trace control flow'',
        [],
        ''Use descriptive labels like \'handleSubmit-entry\', \'api-response\', \'error-caught'' @ [CHR 0x27]]\<close>

text \<open>\<^verbatim>\<open>debug_start\<close>. An exception leaves the variables as they are at the throw. The
  local URL prints the port that was asked of \<^verbatim>\<open>Bun.serve\<close>.\<close>

definition debug_start ::
  "env \<Rightarrow> string \<Rightarrow> jsnumber option \<Rightarrow> plugin \<Rightarrow> (error + string) \<times> plugin" where
  "debug_start e directory port_arg s =
     (case server s of
        Some srv \<Rightarrow> (Inr (already_running_message (effective_url srv (tunnel s))), s)
      | None \<Rightarrow>
         (case findAvailablePort e port_arg of
            Inl err \<Rightarrow> (Inl err, s)
          | Inr port \<Rightarrow>
             (case serve e port of
                None \<Rightarrow> (Inl ServeError, s)
              | Some bound \<Rightarrow>
                 (let s1 = s\<lparr>server :=
                             Some \<lparr>server_port = bound, server_logPath = getLogPath directory\<rparr>\<rparr>;
                      localUrl = buildDebugUrl (''http://localhost:'' @ number_to_string port);
                      token = (case NGROK_AUTHTOKEN e of
                                 Some t \<Rightarrow> Some t
                               | None \<Rightarrow> storedNgrokToken s1)
                  in case startTunnel e port token s1 of
                       (Inl err, s2) \<Rightarrow> (Inl err, s2)
                     | (Inr tunnelUrl, s2) \<Rightarrow>
                        (let publicUrl = (case tunnelUrl of
                                            Some u \<Rightarrow> if u \<noteq> [] then Some (buildDebugUrl u)
                                                      else None
                                          | None \<Rightarrow> None);
                             url = (case publicUrl of Some u \<Rightarrow> u | None \<Rightarrow> localUrl)
                         in (Inr (started_message url),
                             s2\<lparr>debugModeActive := True, activeDebugUrl := Some url\<rparr>))))))"

definition debug_stop :: "plugin \<Rightarrow> string \<times> plugin" where
  "debug_stop s =
     (if server s = None then (''Debug server is not running.'', s)
      else (join ''\<newline>''
              [''# Debug Mode Stopped'',
               [],
               ''Log file preserved at: '' @ getLogDisplayPath,
               [],
               ''**Remember:** Remove the fetch() debug calls you inserted in the codebase.''],
            (stopServer s)\<lparr>debugModeActive := False, activeDebugUrl := None\<rparr>))"

definition debug_clear :: "string \<Rightarrow> plugin \<Rightarrow> string \<times> plugin" where
  "debug_clear directory s =
     (if files s (getLogPath directory) \<noteq> None
      then (''Debug log cleared: '' @ getLogDisplayPath @
              ''\<newline>\<newline>Ready for fresh debug data.'',
            s\<lparr>files := (files s)(getLogPath directory \<mapsto> [])\<rparr>)
      else (''Debug log does not exist yet: '' @ getLogDisplayPath, s))"

definition read_message :: "string list \<Rightarrow> string" where
  "read_message output =
     join ''\<newline>''
       [''# Debug Log ('' @ show_nat (length output) @ '' entries)'',
        replicate 50 CHR ''='',
        [],
        join ''\<newline>'' output,
        [],
        replicate 50 CHR ''='',
        ''**Analyze the above data to identify the issue.**'']"

definition debug_read :: "string \<Rightarrow> int option \<Rightarrow> plugin \<Rightarrow> string \<times> plugin" where
  "debug_read directory tail s =
     (case files s (getLogPath directory) of
        None \<Rightarrow>
          (''No debug log yet.\<newline>\<newline>**Tip:** Make sure fetch() calls are in place and the user has reproduced the issue.'', s)
      | Some content \<Rightarrow>
          (let lines = log_lines content in
           if length lines = 0
           then (''Debug log is empty.\<newline>\<newline>**Tip:** The instrumented code paths may not have been executed. Ask the user to reproduce the issue.'', s)
           else (read_message (tail_output tail lines), s)))"

definition debug_status :: "plugin \<Rightarrow> string \<times> plugin" where
  "debug_status s =
     (case server s of
        None \<Rightarrow>
          (''Debug mode is **not active**.\<newline>\<newline>Use debug_start to begin a debugging session.'', s)
      | Some srv \<Rightarrow>
          if \<not> debugModeActive s
          then (''Debug mode is **not active**.\<newline>\<newline>Use debug_start to begin a debugging session.'', s)
          else (join ''\<newline>''
                  [''# Debug Mode Active'',
                   [],
                   ''**Debug URL:** '' @ effective_url srv (tunnel s),
                   ''**Log File:** '' @ getLogDisplayPath,
                   [],
                   ''Use this URL in your fetch() calls to capture debug data.''], s))"

text \<open>A request served by the running session: the handler works on the log path the
  server was created with.\<close>

definition serve_request ::
  "string \<Rightarrow> request \<Rightarrow> plugin \<Rightarrow> (error + response) option \<times> plugin" where
  "serve_request timestamp req s =
     (case server s of
        None \<Rightarrow> (None, s)
      | Some srv \<Rightarrow>
          (case createDebugServer_fetch (server_logPath srv) timestamp req (files s) of
             (resp, fsys) \<Rightarrow> (Some resp, s\<lparr>files := fsys\<rparr>)))"

section \<open>Auxiliary facts\<close>

lemma truthy_iff:
  "truthy l \<longleftrightarrow>
     l \<noteq> JNull \<and> l \<noteq> JBool False \<and> l \<noteq> JStr [] \<and> (\<forall>n. l = JNum n \<longrightarrow> \<not> is_zero n)"
  by (cases l) auto

lemma is_zero_iff: "is_zero n \<longleftrightarrow> (\<exists>neg e. n = Num neg 0 e)"
  by (cases n) auto


lemma number_3333: "number_to_string (Num False 3333 0) = ''3333''"
  by (simp add: number_body_def show_nat.simps strip_zeros.simps)

lemma number_42: "number_to_string (Num False 42 0) = ''42''"
  by (simp add: number_body_def show_nat.simps strip_zeros.simps)

text \<open>The forms of \<^verbatim>\<open>Number.prototype.toString\<close>: 0.5, 1500, 123.456, ten to the power
  21, and ten to the power -7.\<close>

lemma number_to_string_forms:
  "number_to_string (Num False 5 (- 1)) = ''0.5''"
  "number_to_string (Num True 15 2) = ''-1500''"
  "number_to_string (Num False 123456 (- 3)) = ''123.456''"
  "number_to_string (Num False 1 21) = ''1e+21''"
  "number_to_string (Num False 1 (- 7)) = ''1e-7''"
  "number_to_string (Num False 1 (- 6)) = ''0.000001''"
  "number_to_string (Num True 0 0) = ''0''"
proof -
  have r: "replicate 2 c = [c, c]" "replicate 5 c = [c, c, c, c, c]" for c :: char
    by (simp_all add: eval_nat_numeral)
  show "number_to_string (Num False 5 (- 1)) = ''0.5''"
    "number_to_string (Num True 15 2) = ''-1500''"
    "number_to_string (Num False 123456 (- 3)) = ''123.456''"
    "number_to_string (Num False 1 21) = ''1e+21''"
    "number_to_string (Num False 1 (- 7)) = ''1e-7''"
    "number_to_string (Num False 1 (- 6)) = ''0.000001''"
    "number_to_string (Num True 0 0) = ''0''"
    by (simp_all add: number_body_def show_nat.simps strip_zeros.simps r)
qed

subsection \<open>String conversion\<close>

lemma collect_all_right:
  "(\<And>r. r \<in> set rs \<Longrightarrow> \<exists>x. r = Inr x) \<Longrightarrow> \<exists>xs. collect rs = Inr xs"
proof (induction rs rule: collect.induct)
  case 1
  show ?case by simp
next
  case (2 err rs)
  from "2.prems" [of "Inl err"] show ?case by simp
next
  case (3 x rs)
  then obtain xs where "collect rs = Inr xs" by auto
  then show ?case by simp
qed

lemma collect_type_error:
  "Inl TypeError \<in> set rs \<Longrightarrow> (\<And>r. r \<in> set rs \<Longrightarrow> r = Inl TypeError \<or> (\<exists>x. r = Inr x)) \<Longrightarrow>
     collect rs = Inl TypeError"
proof (induction rs rule: collect.induct)
  case 1
  then show ?case by simp
next
  case (2 err rs)
  from "2.prems"(2) [of "Inl err"] show ?case by simp
next
  case (3 x rs)
  then have "collect rs = Inl TypeError" by auto
  then show ?case by simp
qed

lemma js_to_string_cases:
  "js_to_string l = (if unconvertible l then Inl TypeError else Inr (projr (js_to_string l)))"
proof (induction l)
  case (JArr xs)
  let ?rs = "map (\<lambda>(x, r). if x = JNull then Inr [] else r) (zip xs (map js_to_string xs))"
  have rs: "?rs = map (\<lambda>x. if x = JNull then Inr [] else js_to_string x) xs"
    by (induction xs) auto
  have each: "\<And>r. r \<in> set ?rs \<Longrightarrow> r = Inl TypeError \<or> (\<exists>x. r = Inr x)"
  proof -
    fix r assume "r \<in> set ?rs"
    then obtain x where x: "x \<in> set xs" and r: "r = (if x = JNull then Inr [] else js_to_string x)"
      unfolding rs by auto
    from JArr [OF x] r show "r = Inl TypeError \<or> (\<exists>x. r = Inr x)"
      by (auto split: if_splits)
  qed
  show ?case
  proof (cases "unconvertible (JArr xs)")
    case True
    then obtain x where x: "x \<in> set xs" and u: "unconvertible x"
      by (auto simp add: list_ex_iff)
    then have "x \<noteq> JNull" by auto
    with JArr [OF x] u have "Inl TypeError \<in> set ?rs"
      unfolding rs using x by (auto simp add: image_iff intro!: bexI [of _ x])
    then have "collect ?rs = Inl TypeError"
      using each by (rule collect_type_error)
    with True show ?thesis by simp
  next
    case False
    then have no: "\<And>x. x \<in> set xs \<Longrightarrow> \<not> unconvertible x"
      by (auto simp add: list_ex_iff)
    have "\<And>r. r \<in> set ?rs \<Longrightarrow> \<exists>x. r = Inr x"
    proof -
      fix r assume "r \<in> set ?rs"
      then obtain x where x: "x \<in> set xs"
        and r: "r = (if x = JNull then Inr [] else js_to_string x)"
        unfolding rs by auto
      from JArr [OF x] no [OF x] r show "\<exists>x. r = Inr x"
        by (auto split: if_splits)
    qed
    then obtain ss where "collect ?rs = Inr ss"
      using collect_all_right by blast
    with False show ?thesis by simp
  qed
qed simp_all

lemma js_to_string_throws: "unconvertible l \<Longrightarrow> js_to_string l = Inl TypeError"
  using js_to_string_cases [of l] by simp

lemma js_to_string_converts: "\<not> unconvertible l \<Longrightarrow> \<exists>text. js_to_string l = Inr text"
  using js_to_string_cases [of l] by auto

subsection \<open>Serialised data holds no line break\<close>

lemma show_nat_digits: "set (show_nat n) \<subseteq> set ''0123456789''"
proof (induction n rule: show_nat.induct)
  case (1 n)
  have d: "\<And>k. k < 10 \<Longrightarrow> ''0123456789'' ! k \<in> set ''0123456789''"
    by (intro nth_mem) simp
  show ?case
  proof (cases "n < 10")
    case True
    then show ?thesis using d [of n] by (subst show_nat.simps) simp
  next
    case False
    then show ?thesis
      using "1.IH" d [of "n mod 10"] by (subst show_nat.simps) simp
  qed
qed

lemma show_nat_no_newline: "CHR 0x0A \<notin> set (show_nat n)"
  using show_nat_digits [of n] by auto

lemma number_body_no_newline: "CHR 0x0A \<notin> set (number_body s e)"
  using show_nat_no_newline
  by (auto simp add: number_body_def Let_def dest: in_set_takeD in_set_dropD)

lemma number_to_string_no_newline: "CHR 0x0A \<notin> set (number_to_string n)"
  by (cases n) (auto simp add: number_body_no_newline split: prod.splits)

lemma number_to_json_no_newline: "CHR 0x0A \<notin> set (number_to_json n)"
  using number_to_string_no_newline [of n] by (cases n) auto

lemma hex_digit_ne_newline: "d < 16 \<Longrightarrow> hex_digit d \<noteq> CHR 0x0A"
proof -
  assume "d < 16"
  then have "''0123456789abcdef'' ! d \<in> set ''0123456789abcdef''"
    by (intro nth_mem) simp
  then show ?thesis by (auto simp add: hex_digit_def)
qed

lemma quote_char_no_newline: "CHR 0x0A \<notin> set (quote_char c)"
proof -
  have "(of_char c :: nat) < 32 \<Longrightarrow> (of_char c :: nat) div 16 < 16" by simp
  moreover have "(of_char c :: nat) mod 16 < 16" by simp
  ultimately show ?thesis
    using hex_digit_ne_newline [of "of_char c div 16"] hex_digit_ne_newline [of "of_char c mod 16"]
    by (auto simp add: quote_char_def)
qed

lemma quote_string_no_newline: "CHR 0x0A \<notin> set (quote_string s)"
  by (auto simp add: quote_string_def quote_char_no_newline)

lemma join_no_newline:
  "CHR 0x0A \<notin> set sep \<Longrightarrow> (\<And>x. x \<in> set xs \<Longrightarrow> CHR 0x0A \<notin> set x) \<Longrightarrow>
     CHR 0x0A \<notin> set (join sep xs)"
  by (induction sep xs rule: join.induct) auto

lemma JSON_stringify_no_newline: "CHR 0x0A \<notin> set (JSON_stringify d)"
proof (induction d)
  case (JArr xs)
  then have "CHR 0x0A \<notin> set (join '','' (map JSON_stringify xs))"
    by (intro join_no_newline) auto
  then show ?case by simp
next
  case (JObj kvs)
  have "CHR 0x0A \<notin> set (join '','' (map (\<lambda>(k, s). quote_string k @ '':'' @ s)
                          (map (map_prod id JSON_stringify) kvs)))"
  proof (intro join_no_newline)
    show "CHR 0x0A \<notin> set '',''" by simp
  next
    fix x
    assume "x \<in> set (map (\<lambda>(k, s). quote_string k @ '':'' @ s)
                          (map (map_prod id JSON_stringify) kvs))"
    then obtain k v where kv: "(k, v) \<in> set kvs"
      and x: "x = quote_string k @ '':'' @ JSON_stringify v"
      by auto
    from kv JObj have "CHR 0x0A \<notin> set (JSON_stringify v)"
      by (auto simp add: snds.simps)
    with x show "CHR 0x0A \<notin> set x"
      by (simp add: quote_string_no_newline)
  qed
  then show ?case by simp
qed (simp_all add: number_to_json_no_newline quote_string_no_newline)

subsection \<open>Splitting and trimming\<close>

lemma split_nl_nonempty: "split_nl cs \<noteq> []"
  by (induction cs) (auto split: list.splits)

lemma split_nl_append:
  "split_nl (a @ CHR 0x0A # b) = split_nl a @ split_nl b"
proof (induction a)
  case Nil
  show ?case by simp
next
  case (Cons c a)
  obtain l ls where s: "split_nl a = l # ls"
    using split_nl_nonempty [of a] by (cases "split_nl a") auto
  with Cons show ?case by simp
qed

lemma newlines_prefix:
  "set pre \<subseteq> {CHR 0x0A} \<Longrightarrow>
     filter (\<lambda>l. l \<noteq> []) (split_nl (pre @ cs)) = filter (\<lambda>l. l \<noteq> []) (split_nl cs)"
  by (induction pre) auto

lemma newlines_only:
  "set post \<subseteq> {CHR 0x0A} \<Longrightarrow> filter (\<lambda>l. l \<noteq> []) (split_nl post) = []"
  using newlines_prefix [of post "[]"] by simp

lemma newlines_suffix:
  "set post \<subseteq> {CHR 0x0A} \<Longrightarrow>
     filter (\<lambda>l. l \<noteq> []) (split_nl (cs @ post)) = filter (\<lambda>l. l \<noteq> []) (split_nl cs)"
proof (cases post)
  case Nil
  then show ?thesis by simp
next
  case (Cons c post')
  assume a: "set post \<subseteq> {CHR 0x0A}"
  with Cons have c: "c = CHR 0x0A" and p: "set post' \<subseteq> {CHR 0x0A}" by auto
  show ?thesis
    unfolding Cons c split_nl_append using newlines_only [OF p] by simp
qed

lemma strip_stops:
  "(\<And>w. w \<in> set ws \<Longrightarrow> take (length w) s \<noteq> w) \<Longrightarrow> strip ws s = s"
proof -
  assume a: "\<And>w. w \<in> set ws \<Longrightarrow> take (length w) s \<noteq> w"
  have "find (\<lambda>w. w \<noteq> [] \<and> take (length w) s = w) ws = None"
    using a by (auto simp add: find_None_iff)
  then show ?thesis by (subst strip.simps) simp
qed

lemma strip_empty: "strip ws [] = []"
proof -
  have "find (\<lambda>w. w \<noteq> [] \<and> take (length w) [] = w) ws = None"
    by (auto simp add: find_None_iff)
  then show ?thesis by (subst strip.simps) simp
qed

lemma strip_newline_front: "strip white_space (CHR 0x0A # s) = strip white_space s"
  by (subst strip.simps) (simp add: white_space_def)

lemma strip_newline_back:
  "strip (map rev white_space) (CHR 0x0A # s) = strip (map rev white_space) s"
  by (subst strip.simps) (simp add: white_space_def)

lemma strip_newlines_front:
  "set pre \<subseteq> {CHR 0x0A} \<Longrightarrow> strip white_space (pre @ s) = strip white_space s"
  by (induction pre) (auto simp add: strip_newline_front)

lemma strip_newlines_back:
  "set pre \<subseteq> {CHR 0x0A} \<Longrightarrow>
     strip (map rev white_space) (pre @ s) = strip (map rev white_space) s"
  by (induction pre) (auto simp add: strip_newline_back)

lemma white_space_tails: "w \<in> set white_space \<Longrightarrow> w \<noteq> [] \<and> CHR 0x0A \<notin> set (tl w)"
  by (auto simp add: white_space_def)

lemma no_space_before_newlines:
  assumes "mid \<noteq> []" and "\<not> begins_with_space mid" and "set post \<subseteq> {CHR 0x0A}"
    and "w \<in> set white_space"
  shows "take (length w) (mid @ post) \<noteq> w"
proof
  assume t: "take (length w) (mid @ post) = w"
  from assms(2,4) have nm: "take (length w) mid \<noteq> w"
    by (auto simp add: begins_with_space_def list_ex_iff)
  have "length mid < length w"
  proof (rule ccontr)
    assume "\<not> length mid < length w"
    then have "take (length w) (mid @ post) = take (length w) mid" by simp
    with t nm show False by simp
  qed
  then have w: "w = mid @ take (length w - length mid) post"
    using t by simp
  from \<open>length mid < length w\<close> w have "take (length w - length mid) post \<noteq> []"
    by (metis append_Nil2 less_irrefl)
  then obtain c where c: "c \<in> set (take (length w - length mid) post)"
    by (cases "take (length w - length mid) post") auto
  then have "c = CHR 0x0A"
    using assms(3) by (auto dest: in_set_takeD)
  with c w assms(1) have "CHR 0x0A \<in> set (tl w)"
    by (cases mid) (auto, metis Un_iff set_append list.sel(3))
  with white_space_tails [OF assms(4)] show False by simp
qed

lemma trim_core:
  assumes "set pre \<subseteq> {CHR 0x0A}" and "set post \<subseteq> {CHR 0x0A}"
    and "mid \<noteq> []" and "\<not> begins_with_space mid" and "\<not> ends_with_space mid"
  shows "trim (pre @ mid @ post) = mid"
proof -
  have "strip white_space (pre @ mid @ post) = strip white_space (mid @ post)"
    using assms(1) by (rule strip_newlines_front)
  also have "\<dots> = mid @ post"
    using no_space_before_newlines [OF assms(3,4,2)] by (intro strip_stops)
  finally have 1: "strip white_space (pre @ mid @ post) = mid @ post" .
  have "strip (map rev white_space) (rev post @ rev mid) = strip (map rev white_space) (rev mid)"
    using assms(2) by (intro strip_newlines_back) simp
  also have "\<dots> = rev mid"
  proof (intro strip_stops)
    fix w assume "w \<in> set (map rev white_space)"
    then obtain v where v: "v \<in> set white_space" and w: "w = rev v" by auto
    from assms(5) v have "take (length v) (rev mid) \<noteq> rev v"
      by (auto simp add: ends_with_space_def list_ex_iff)
    with w show "take (length w) (rev mid) \<noteq> w" by simp
  qed
  finally have 2: "strip (map rev white_space) (rev post @ rev mid) = rev mid" .
  show ?thesis
    by (simp add: trim_def 1 2)
qed

lemma trim_newlines_only:
  assumes "set cs \<subseteq> {CHR 0x0A}"
  shows "trim cs = []"
proof -
  have "strip white_space (cs @ []) = strip white_space []"
    using assms by (rule strip_newlines_front)
  then have "strip white_space cs = []"
    by (simp add: strip_empty)
  then show ?thesis by (simp add: trim_def strip_empty)
qed

lemma log_lines_empty: "log_lines [] = []"
  using trim_newlines_only [of "[]"] by (simp add: log_lines_def)

lemma log_lines_clean:
  assumes "set pre \<subseteq> {CHR 0x0A}" and "set post \<subseteq> {CHR 0x0A}"
    and "mid = [] \<or> (\<not> begins_with_space mid \<and> \<not> ends_with_space mid)"
  shows "log_lines (pre @ mid @ post) = filter (\<lambda>l. l \<noteq> []) (split_nl (pre @ mid @ post))"
proof (cases "mid = []")
  case True
  have "trim (pre @ post) = []"
    using assms(1,2) by (intro trim_newlines_only) auto
  moreover have "filter (\<lambda>l. l \<noteq> []) (split_nl (pre @ post)) = []"
    using newlines_only [of "pre @ post"] assms(1,2) by simp
  ultimately show ?thesis using True by (simp add: log_lines_def)
next
  case False
  with assms(3) have m: "\<not> begins_with_space mid" "\<not> ends_with_space mid" by auto
  have "trim (pre @ mid @ post) = mid"
    using assms(1,2) False m by (rule trim_core)
  moreover have "filter (\<lambda>l. l \<noteq> []) (split_nl (pre @ mid @ post))
      = filter (\<lambda>l. l \<noteq> []) (split_nl mid)"
    using newlines_prefix [OF assms(1), of "mid @ post"] newlines_suffix [OF assms(2), of mid]
    by simp
  ultimately show ?thesis by (simp add: log_lines_def)
qed

lemma tail_output_eq:
  "tail_output tail ls =
     (case tail of
        None \<Rightarrow> ls
      | Some t \<Rightarrow> if 0 < t then drop (length ls - nat t) ls else ls)"
proof (cases tail)
  case None
  then show ?thesis by (simp add: tail_output_def)
next
  case (Some t)
  have "0 < t \<Longrightarrow> nat (max (int (length ls) - t) 0) = length ls - nat t"
    by (simp add: max_def) linarith
  with Some show ?thesis by (simp add: tail_output_def slice_def)
qed

subsection \<open>The tools and the files\<close>

lemma debug_stop_files: "files (snd (debug_stop s)) = files s"
  by (simp add: debug_stop_def stopServer_def Let_def)

lemma debug_read_files:
  "files s = files s' \<Longrightarrow>
     fst (debug_read directory tail s) = fst (debug_read directory tail s')"
  by (simp add: debug_read_def Let_def split: option.splits)

lemma debug_clear_existing:
  "files s (getLogPath directory) \<noteq> None \<Longrightarrow>
     debug_clear directory s =
       (''Debug log cleared: .opencode/debug.log\<newline>\<newline>Ready for fresh debug data.'',
        s\<lparr>files := (files s)(getLogPath directory \<mapsto> [])\<rparr>)"
  by (simp add: debug_clear_def getLogDisplayPath_def config_def defaultConfig_def)

lemma debug_read_empty:
  "files s (getLogPath directory) = Some [] \<Longrightarrow>
     fst (debug_read directory tail s) =
       ''Debug log is empty.\<newline>\<newline>**Tip:** The instrumented code paths may not have been executed. Ask the user to reproduce the issue.''"
  by (simp add: debug_read_def log_lines_empty)

section \<open>The ingest route\<close>

lemma received_text:
  \<open>JSON_stringify (JObj [(''received'', JBool True)]) = ''{"received":true}''\<close>
  by (simp add: quote_string_def quote_char_def)

text \<open>What the ingest route does with a body that is an object owning a label.\<close>

lemma ingest_object:
  assumes "req_pathname req = ''/debug''" and "req_method req = ''POST''"
    and "req_json req = Some (JObj kvs)" and "map_of kvs ''label'' = Some l"
  shows \<open>createDebugServer_fetch logPath ts req fsys =
     (if \<not> truthy l
      then (Inr \<lparr>status = 400, headers = [],
                 body = Some ''Missing required field: label''\<rparr>, fsys)
      else (case js_to_string l of
              Inl err \<Rightarrow> (Inl err, fsys)
            | Inr text \<Rightarrow>
                (Inr \<lparr>status = 200, headers = [(''Content-Type'', ''application/json'')],
                      body = Some ''{"received":true}''\<rparr>,
                 fsys(logPath \<mapsto> (case fsys logPath of Some t \<Rightarrow> t | None \<Rightarrow> [])
                        @ ''['' @ ts @ ''] '' @ text
                        @ (case map_of kvs ''data'' of
                             None \<Rightarrow> []
                           | Some d \<Rightarrow> '' | '' @ JSON_stringify d)
                        @ ''\<newline>''))))\<close>
  using assms received_text
  by (simp add: createDebugServer_fetch_def config_def defaultConfig_def jsonResponse_def
      appendToLog_def log_line_def Let_def split: sum.splits option.splits)

text \<open>
  Claim C10, as the code has it. The ingest route tests the label for truthiness, not
  for being a non-empty string. For a POST to the ingest endpoint whose body is an
  object with a \<^verbatim>\<open>label\<close> property \<open>l\<close>: \<open>l\<close> is truthy exactly when it is none of
  \<^verbatim>\<open>null\<close>, \<^verbatim>\<open>false\<close>, zero and the empty string. A falsy \<open>l\<close> is answered with 400 and
  nothing is written. A truthy \<open>l\<close> whose string conversion succeeds, of any type (the
  number 42, an object without a \<^verbatim>\<open>toString\<close> property), is answered with 200 and one
  line is appended, the label put into it by string conversion (\<^verbatim>\<open>42\<close>,
  \<^verbatim>\<open>[object Object]\<close>). A truthy \<open>l\<close> whose string conversion throws (an object that owns
  a \<^verbatim>\<open>toString\<close> property, an array that holds one) ends the handler with the TypeError:
  no 200 and nothing is written.
\<close>

theorem ingest_label_truthiness:
  assumes "req_pathname req = ''/debug''" and "req_method req = ''POST''"
    and "req_json req = Some (JObj kvs)" and "map_of kvs ''label'' = Some l"
  shows \<open>(truthy l \<longleftrightarrow>
            l \<noteq> JNull \<and> l \<noteq> JBool False \<and> l \<noteq> JStr [] \<and> (\<forall>neg e. l \<noteq> JNum (Num neg 0 e)))
       \<and> (\<not> truthy l \<longrightarrow>
            createDebugServer_fetch logPath ts req fsys =
              (Inr \<lparr>status = 400, headers = [],
                    body = Some ''Missing required field: label''\<rparr>, fsys))
       \<and> (truthy l \<and> unconvertible l \<longrightarrow>
            createDebugServer_fetch logPath ts req fsys = (Inl TypeError, fsys))
       \<and> (truthy l \<and> \<not> unconvertible l \<longrightarrow>
            (\<exists>text. js_to_string l = Inr text
              \<and> createDebugServer_fetch logPath ts req fsys =
                  (Inr \<lparr>status = 200, headers = [(''Content-Type'', ''application/json'')],
                        body = Some ''{"received":true}''\<rparr>,
                   fsys(logPath \<mapsto> (case fsys logPath of Some t \<Rightarrow> t | None \<Rightarrow> [])
                          @ ''['' @ ts @ ''] '' @ text
                          @ (case map_of kvs ''data'' of
                               None \<Rightarrow> []
                             | Some d \<Rightarrow> '' | '' @ JSON_stringify d)
                          @ ''\<newline>''))))
       \<and> js_to_string (JNum (Num False 42 0)) = Inr ''42''
       \<and> js_to_string (JObj kvs') =
            (if map_of kvs' ''toString'' = None then Inr ''[object Object]''
             else Inl TypeError)
       \<and> (unconvertible (JArr xs) \<longleftrightarrow> (\<exists>x\<in>set xs. unconvertible x))
       \<and> (unconvertible (JObj kvs') \<longleftrightarrow> map_of kvs' ''toString'' \<noteq> None)
       \<and> \<not> unconvertible (JStr s) \<and> \<not> unconvertible (JNum n) \<and> \<not> unconvertible (JBool b)\<close>
proof -
  note f = ingest_object [OF assms, of logPath ts fsys]
  have a: "truthy l \<longleftrightarrow>
      l \<noteq> JNull \<and> l \<noteq> JBool False \<and> l \<noteq> JStr [] \<and> (\<forall>neg e. l \<noteq> JNum (Num neg 0 e))"
    using truthy_iff [of l] by (auto simp add: is_zero_iff)
  have b: "\<not> truthy l \<longrightarrow>
            createDebugServer_fetch logPath ts req fsys =
              (Inr \<lparr>status = 400, headers = [],
                    body = Some ''Missing required field: label''\<rparr>, fsys)"
    using f by simp
  have c: "truthy l \<and> unconvertible l \<longrightarrow>
            createDebugServer_fetch logPath ts req fsys = (Inl TypeError, fsys)"
    using f js_to_string_throws [of l] by simp
  have d: \<open>truthy l \<and> \<not> unconvertible l \<longrightarrow>
            (\<exists>text. js_to_string l = Inr text
              \<and> createDebugServer_fetch logPath ts req fsys =
                  (Inr \<lparr>status = 200, headers = [(''Content-Type'', ''application/json'')],
                        body = Some ''{"received":true}''\<rparr>,
                   fsys(logPath \<mapsto> (case fsys logPath of Some t \<Rightarrow> t | None \<Rightarrow> [])
                          @ ''['' @ ts @ ''] '' @ text
                          @ (case map_of kvs ''data'' of
                               None \<Rightarrow> []
                             | Some d \<Rightarrow> '' | '' @ JSON_stringify d)
                          @ ''\<newline>'')))\<close>
  proof (intro impI)
    assume h: "truthy l \<and> \<not> unconvertible l"
    then obtain str where t: "js_to_string l = Inr str"
      using js_to_string_converts [of l] by auto
    with f h show \<open>\<exists>text. js_to_string l = Inr text
              \<and> createDebugServer_fetch logPath ts req fsys =
                  (Inr \<lparr>status = 200, headers = [(''Content-Type'', ''application/json'')],
                        body = Some ''{"received":true}''\<rparr>,
                   fsys(logPath \<mapsto> (case fsys logPath of Some t \<Rightarrow> t | None \<Rightarrow> [])
                          @ ''['' @ ts @ ''] '' @ text
                          @ (case map_of kvs ''data'' of
                               None \<Rightarrow> []
                             | Some d \<Rightarrow> '' | '' @ JSON_stringify d)
                          @ ''\<newline>''))\<close>
      by simp
  qed
  have e: "js_to_string (JNum (Num False 42 0)) = Inr ''42''"
    by (simp add: number_42 del: number_to_string.simps)
  have g: "unconvertible (JArr xs) \<longleftrightarrow> (\<exists>x\<in>set xs. unconvertible x)"
    by (auto simp add: list_ex_iff)
  show ?thesis
    using a b c d e g by simp
qed

theorem ingest_label_truthiness_witness:
  \<open>createDebugServer_fetch ''log'' ''T''
      \<lparr>req_method = ''POST'', req_pathname = ''/debug'',
       req_json = Some (JObj [(''label'', JNum (Num False 42 0))])\<rparr> Map.empty =
     (Inr \<lparr>status = 200, headers = [(''Content-Type'', ''application/json'')],
           body = Some ''{"received":true}''\<rparr>, [''log'' \<mapsto> ''[T] 42\<newline>''])
   \<and> createDebugServer_fetch ''log'' ''T''
      \<lparr>req_method = ''POST'', req_pathname = ''/debug'',
       req_json = Some (JObj [(''label'', JNum (Num False 0 0))])\<rparr> Map.empty =
     (Inr \<lparr>status = 400, headers = [], body = Some ''Missing required field: label''\<rparr>,
      Map.empty)\<close>
proof -
  let ?r42 = "\<lparr>req_method = ''POST'', req_pathname = ''/debug'',
       req_json = Some (JObj [(''label'', JNum (Num False 42 0))])\<rparr>"
  let ?r0 = "\<lparr>req_method = ''POST'', req_pathname = ''/debug'',
       req_json = Some (JObj [(''label'', JNum (Num False 0 0))])\<rparr>"
  note t42 = ingest_label_truthiness [of ?r42 "[(''label'', JNum (Num False 42 0))]"
      "JNum (Num False 42 0)" "''log''" "''T''" Map.empty]
  note t0 = ingest_label_truthiness [of ?r0 "[(''label'', JNum (Num False 0 0))]"
      "JNum (Num False 0 0)" "''log''" "''T''" Map.empty]
  have a: \<open>createDebugServer_fetch ''log'' ''T'' ?r42 Map.empty =
     (Inr \<lparr>status = 200, headers = [(''Content-Type'', ''application/json'')],
           body = Some ''{"received":true}''\<rparr>, [''log'' \<mapsto> ''[T] 42\<newline>''])\<close>
    using t42 [THEN conjunct2, THEN conjunct2, THEN conjunct2, THEN conjunct1]
    by (simp add: number_42 del: number_to_string.simps)
  have b: "createDebugServer_fetch ''log'' ''T'' ?r0 Map.empty =
     (Inr \<lparr>status = 400, headers = [], body = Some ''Missing required field: label''\<rparr>,
      Map.empty)"
    using t0 [THEN conjunct2, THEN conjunct1] by simp
  show ?thesis using a b by simp
qed

text \<open>
  Claim C10 as stated fails. The label \<^verbatim>\<open>{"toString": 1}\<close> is an object, hence truthy,
  and it passes the test of the route; its conversion to a string throws, the handler
  ends with the TypeError, and nothing is logged.
\<close>

theorem truthy_label_counterexample:
  "truthy (JObj [(''toString'', JNum (Num False 1 0))])
   \<and> createDebugServer_fetch ''log'' ''T''
        \<lparr>req_method = ''POST'', req_pathname = ''/debug'',
         req_json = Some (JObj [(''label'', JObj [(''toString'', JNum (Num False 1 0))])])\<rparr>
        Map.empty =
       (Inl TypeError, Map.empty)"
  by (simp add: createDebugServer_fetch_def config_def defaultConfig_def appendToLog_def
      log_line_def)

text \<open>
  Claim C3, as the code has it. For every POST to the ingest endpoint: when the body does
  not parse, or the parsed body has no \<^verbatim>\<open>label\<close> property (any body that is not an
  object has none), or the label is the empty string, zero, \<^verbatim>\<open>false\<close> or \<^verbatim>\<open>null\<close>, the
  answer is 400 with the plain text \<^verbatim>\<open>Missing required field: label\<close> and the files are
  unchanged. For every other label whose string conversion succeeds the answer is 200
  with the body \<^verbatim>\<open>{"received":true}\<close> and the log file is its old content followed by
  the one record of that label and data. For a label whose string conversion throws,
  the handler ends with the exception and the files are unchanged.
\<close>

theorem ingest_validation:
  assumes "req_pathname req = ''/debug''" and "req_method req = ''POST''"
  shows \<open>createDebugServer_fetch logPath ts req fsys =
     (case req_json req of
        None \<Rightarrow>
          (Inr \<lparr>status = 400, headers = [], body = Some ''Missing required field: label''\<rparr>,
           fsys)
      | Some b \<Rightarrow>
          (case get_prop b ''label'' of
             None \<Rightarrow>
               (Inr \<lparr>status = 400, headers = [],
                     body = Some ''Missing required field: label''\<rparr>, fsys)
           | Some l \<Rightarrow>
               if l = JStr [] \<or> l = JBool False \<or> l = JNull \<or> (\<exists>neg e. l = JNum (Num neg 0 e))
               then (Inr \<lparr>status = 400, headers = [],
                          body = Some ''Missing required field: label''\<rparr>, fsys)
               else (case js_to_string l of
                       Inl err \<Rightarrow> (Inl err, fsys)
                     | Inr text \<Rightarrow>
                         (Inr \<lparr>status = 200,
                               headers = [(''Content-Type'', ''application/json'')],
                               body = Some ''{"received":true}''\<rparr>,
                          fsys(logPath \<mapsto> (case fsys logPath of Some t \<Rightarrow> t | None \<Rightarrow> [])
                                 @ ''['' @ ts @ ''] '' @ text
                                 @ (case get_prop b ''data'' of
                                      None \<Rightarrow> []
                                    | Some d \<Rightarrow> '' | '' @ JSON_stringify d)
                                 @ ''\<newline>'')))))\<close>
proof (cases "req_json req")
  case None
  with assms show ?thesis
    by (simp add: createDebugServer_fetch_def config_def defaultConfig_def)
next
  case (Some b)
  show ?thesis
  proof (cases "get_prop b ''label''")
    case None
    with Some assms show ?thesis
      by (simp add: createDebugServer_fetch_def config_def defaultConfig_def)
  next
    case l: (Some l)
    then obtain kvs where b: "b = JObj kvs"
      by (cases b) auto
    have t: "\<not> truthy l \<longleftrightarrow>
        l = JStr [] \<or> l = JBool False \<or> l = JNull \<or> (\<exists>neg e. l = JNum (Num neg 0 e))"
      using truthy_iff [of l] by (auto simp add: is_zero_iff)
    from l b have m: "map_of kvs ''label'' = Some l" by simp
    from Some b have r: "req_json req = Some (JObj kvs)" by simp
    show ?thesis
      using ingest_object [OF assms r m, of logPath ts fsys] Some l b t
      by (simp split: sum.splits)
  qed
qed

theorem ingest_validation_witness:
  \<open>createDebugServer_fetch ''log'' ''T''
      \<lparr>req_method = ''POST'', req_pathname = ''/debug'', req_json = Some (JObj [])\<rparr>
      [''log'' \<mapsto> ''old''] =
     (Inr \<lparr>status = 400, headers = [], body = Some ''Missing required field: label''\<rparr>,
      [''log'' \<mapsto> ''old''])
   \<and> createDebugServer_fetch ''log'' ''T''
      \<lparr>req_method = ''POST'', req_pathname = ''/debug'',
       req_json = Some (JObj [(''label'', JStr ''A'')])\<rparr> [''log'' \<mapsto> ''old''] =
     (Inr \<lparr>status = 200, headers = [(''Content-Type'', ''application/json'')],
           body = Some ''{"received":true}''\<rparr>, [''log'' \<mapsto> ''old[T] A\<newline>''])\<close>
  using ingest_validation [of "\<lparr>req_method = ''POST'', req_pathname = ''/debug'',
       req_json = Some (JObj [])\<rparr>" "''log''" "''T''" "[''log'' \<mapsto> ''old'']"]
    ingest_validation [of "\<lparr>req_method = ''POST'', req_pathname = ''/debug'',
       req_json = Some (JObj [(''label'', JStr ''A'')])\<rparr>" "''log''" "''T''"
       "[''log'' \<mapsto> ''old'']"]
  by simp

text \<open>
  Claim C3 as stated fails. The body \<^verbatim>\<open>{"label": 0}\<close> parses, its label is present and
  is not the empty string; the answer is 400 all the same, not 200, and nothing is
  appended.
\<close>

theorem ingest_absent_or_empty_counterexample:
  \<open>req_json \<lparr>req_method = ''POST'', req_pathname = ''/debug'',
              req_json = Some (JObj [(''label'', JNum (Num False 0 0))])\<rparr> =
       Some (JObj [(''label'', JNum (Num False 0 0))])
   \<and> get_prop (JObj [(''label'', JNum (Num False 0 0))]) ''label'' = Some (JNum (Num False 0 0))
   \<and> JNum (Num False 0 0) \<noteq> JStr []
   \<and> createDebugServer_fetch ''log'' ''T''
        \<lparr>req_method = ''POST'', req_pathname = ''/debug'',
         req_json = Some (JObj [(''label'', JNum (Num False 0 0))])\<rparr> Map.empty =
       (Inr \<lparr>status = 400, headers = [], body = Some ''Missing required field: label''\<rparr>,
        Map.empty)\<close>
  by (simp add: createDebugServer_fetch_def config_def defaultConfig_def)

text \<open>
  Claim C6, as the code has it. For a label whose string conversion succeeds, the record
  \<^verbatim>\<open>appendToLog\<close> writes is \<^verbatim>\<open>[timestamp] label\<close> when the data is omitted and
  \<^verbatim>\<open>[timestamp] label | JSON\<close> when it is supplied, each ended by a newline; the file
  afterwards is its old content (empty when it did not exist) followed by that record;
  and for one timestamp and label the record without data is strictly shorter than the
  record with data, whatever the data. With a timestamp that holds no line break, the
  record is one line (its only line break is the one that ends it) exactly when the
  label's text holds no line break. For a label whose conversion throws, nothing is
  written.
\<close>

theorem append_line_format:
  "(template label = Inr text \<longrightarrow>
      log_line ts label None = Inr (''['' @ ts @ ''] '' @ text @ ''\<newline>'')
      \<and> log_line ts label (Some d) =
          Inr (''['' @ ts @ ''] '' @ text @ '' | '' @ JSON_stringify d @ ''\<newline>'')
      \<and> (\<exists>line. log_line ts label data = Inr line
            \<and> appendToLog ts logPath label data fsys =
                Inr (fsys(logPath \<mapsto> (case fsys logPath of Some t \<Rightarrow> t | None \<Rightarrow> []) @ line))
            \<and> (CHR 0x0A \<notin> set ts \<longrightarrow>
                  ((\<exists>r. line = r @ [CHR 0x0A] \<and> CHR 0x0A \<notin> set r) \<longleftrightarrow> CHR 0x0A \<notin> set text)))
      \<and> length (''['' @ ts @ ''] '' @ text @ ''\<newline>'')
          < length (''['' @ ts @ ''] '' @ text @ '' | '' @ JSON_stringify d @ ''\<newline>''))
   \<and> (template label = Inl err \<longrightarrow>
        log_line ts label data = Inl err \<and> appendToLog ts logPath label data fsys = Inl err)"
proof -
  have one: "CHR 0x0A \<notin> set ts \<Longrightarrow>
      ((\<exists>r. ''['' @ ts @ ''] '' @ text @ rest @ [CHR 0x0A] = r @ [CHR 0x0A] \<and> CHR 0x0A \<notin> set r)
        \<longleftrightarrow> CHR 0x0A \<notin> set text)"
    if "CHR 0x0A \<notin> set rest" for rest
    using that by auto
  have no: "CHR 0x0A \<notin> set ('' | '' @ JSON_stringify d')" for d'
    using JSON_stringify_no_newline [of d'] by simp
  show ?thesis
  proof (cases data)
    case None
    show ?thesis
      using one [of "[]"] None by (simp add: log_line_def appendToLog_def Let_def)
  next
    case (Some d')
    show ?thesis
      using one [OF no [of d']] Some by (simp add: log_line_def appendToLog_def Let_def)
  qed
qed

theorem append_line_format_witness:
  \<open>log_line ''T'' (Some (JStr ''A'')) None = Inr ''[T] A\<newline>''
   \<and> log_line ''T'' (Some (JStr ''A'')) (Some (JObj [(''k'', JBool True)])) =
       Inr ''[T] A | {"k":true}\<newline>''
   \<and> length ''[T] A\<newline>'' < length ''[T] A | {"k":true}\<newline>''\<close>
  using append_line_format [of "Some (JStr ''A'')" "''A''" "''T''" "JObj [(''k'', JBool True)]"
      None "''log''" "[''log'' \<mapsto> ''[S] B\<newline>'']" TypeError]
  by (simp add: quote_string_def quote_char_def)

text \<open>
  Claim C6 as stated fails. The label \<^verbatim>\<open>"a\nb"\<close> is truthy and is accepted; it goes
  into the record as it is, and the record the file receives is two lines.
\<close>

theorem record_two_lines_counterexample:
  \<open>createDebugServer_fetch ''log'' ''T''
        \<lparr>req_method = ''POST'', req_pathname = ''/debug'',
         req_json = Some (JObj [(''label'', JStr ''a\<newline>b'')])\<rparr> Map.empty =
       (Inr \<lparr>status = 200, headers = [(''Content-Type'', ''application/json'')],
             body = Some ''{"received":true}''\<rparr>, [''log'' \<mapsto> ''[T] a\<newline>b\<newline>''])
   \<and> log_line ''T'' (Some (JStr ''a\<newline>b'')) None = Inr ''[T] a\<newline>b\<newline>''
   \<and> split_nl ''[T] a\<newline>b\<newline>'' = [''[T] a'', ''b'', []]\<close>
  by (simp add: createDebugServer_fetch_def config_def defaultConfig_def appendToLog_def
      log_line_def jsonResponse_def quote_string_def quote_char_def)

section \<open>Cross-origin headers\<close>

text \<open>
  Claim C4, at the input where the plugin's server departs from it. An OPTIONS request,
  on any path, falls through both routes: the answer is 404 \<^verbatim>\<open>Not found\<close> with no header
  set, not 204; and no answer of the plugin's server, to any request, carries one of the
  CORS headers.
\<close>

theorem plugin_options_no_cors:
  "createDebugServer_fetch logPath ts
      \<lparr>req_method = ''OPTIONS'', req_pathname = path, req_json = j\<rparr> fsys =
     (Inr \<lparr>status = 404, headers = [], body = Some ''Not found''\<rparr>, fsys)
   \<and> (\<forall>resp. fst (createDebugServer_fetch logPath ts req fsys) = Inr resp \<longrightarrow>
         set (headers resp) \<inter> set corsHeaders = {})"
  by (auto simp add: createDebugServer_fetch_def config_def defaultConfig_def jsonResponse_def
      corsHeaders_def Let_def split: sum.splits if_splits)

theorem plugin_options_no_cors_witness:
  "createDebugServer_fetch ''log'' ''T''
      \<lparr>req_method = ''OPTIONS'', req_pathname = ''/debug'', req_json = None\<rparr> Map.empty =
     (Inr \<lparr>status = 404, headers = [], body = Some ''Not found''\<rparr>, Map.empty)
   \<and> fst (createDebugServer_fetch ''log'' ''T''
      \<lparr>req_method = ''GET'', req_pathname = ''/health'', req_json = None\<rparr> Map.empty) =
     Inr (jsonResponse (JObj [(''status'', JStr ''ok'')]) 200)
   \<and> set (headers (jsonResponse (JObj [(''status'', JStr ''ok'')]) 200)) \<inter> set corsHeaders = {}"
proof -
  have h: "fst (createDebugServer_fetch ''log'' ''T''
      \<lparr>req_method = ''GET'', req_pathname = ''/health'', req_json = None\<rparr> Map.empty) =
     Inr (jsonResponse (JObj [(''status'', JStr ''ok'')]) 200)"
    by (simp add: createDebugServer_fetch_def config_def defaultConfig_def)
  show ?thesis
    using plugin_options_no_cors [of "''log''" "''T''" "''/debug''" None Map.empty
      "\<lparr>req_method = ''GET'', req_pathname = ''/health'', req_json = None\<rparr>"] h
    by simp
qed

text \<open>The standalone server of the examples does what the claim says: every answer
  carries the CORS headers, and OPTIONS is answered with 204.\<close>

lemma standalone_cors:
  "fst (standalone_fetch ts req fsys) = Inr resp \<Longrightarrow>
     set corsHeaders \<subseteq> set (headers resp) \<and> (req_method req = ''OPTIONS'' \<longrightarrow> status resp = 204)"
  by (auto simp add: standalone_fetch_def Let_def split: if_splits sum.splits)

section \<open>Starting and stopping a session\<close>



text \<open>The URL is computed afresh from the server's port and the tunnel. It is the URL
  the start recorded whenever the server listens on the port the start printed.\<close>

lemma restart_returns_recorded_url:
  assumes "server s = None" and "tunnel s = None"
    and "debug_start e directory port_arg s = (Inr m, s')"
    and "\<And>p q. serve e p = Some q \<Longrightarrow> number_to_string p = show_nat q"
  shows "\<exists>srv url. server s' = Some srv \<and> activeDebugUrl s' = Some url
           \<and> effective_url srv (tunnel s') = url
           \<and> debug_start e' directory' port_arg' s' = (Inr (already_running_message url), s')"
proof -
  from assms(1,3) obtain port where fp: "findAvailablePort e port_arg = Inr port"
    by (auto simp add: debug_start_def split: sum.splits)
  from assms(1,3) fp obtain bound where sv: "serve e port = Some bound"
    by (auto simp add: debug_start_def split: option.splits)
  with assms(4) have b: "number_to_string port = show_nat bound" by simp
  show ?thesis
    using assms(1,2,3) fp sv b
    by (auto simp add: debug_start_def startTunnel_def Let_def effective_url_def
        split: option.splits forward_result.splits if_splits
        simp del: number_to_string.simps)
qed

text \<open>
  Claim C8, as the code has it. \<^verbatim>\<open>findAvailablePort\<close> returns the preferred port itself
  when the probe's connection to it fails (nothing listens on it); when the probe
  connects, it returns the port \<^verbatim>\<open>Bun.serve\<close> picks for port 0 and raises nothing of its
  own; without a preferred port it does the same. It fails when that \<^verbatim>\<open>Bun.serve\<close> call
  fails, and also when the probe itself throws, as \<^verbatim>\<open>Bun.connect\<close> does for a number
  outside 0 to 65535: then no ephemeral port is tried. It fails in no other case.
\<close>

theorem findAvailablePort_preferred:
  "(connect e p = Fails \<longrightarrow> findAvailablePort e (Some p) = Inr p)
   \<and> (connect e p = Opens \<longrightarrow>
        findAvailablePort e (Some p) =
          (case serve e (Num False 0 0) of
             Some port \<Rightarrow> Inr (Num False port 0)
           | None \<Rightarrow> Inl ServeError))
   \<and> (connect e p = Throws \<longrightarrow> findAvailablePort e (Some p) = Inl RangeError)
   \<and> findAvailablePort e None =
          (case serve e (Num False 0 0) of
             Some port \<Rightarrow> Inr (Num False port 0)
           | None \<Rightarrow> Inl ServeError)
   \<and> (findAvailablePort e preferred = Inl err \<longrightarrow>
        serve e (Num False 0 0) = None \<or> (\<exists>q. preferred = Some q \<and> connect e q = Throws))
   \<and> isPortInUse e p =
        (case connect e p of Opens \<Rightarrow> Inr True | Fails \<Rightarrow> Inr False | Throws \<Rightarrow> Inl RangeError)"
  by (auto simp add: findAvailablePort_def isPortInUse_def ephemeral_port_def
      split: option.splits connect_result.splits sum.splits if_splits)

theorem findAvailablePort_preferred_witness:
  "findAvailablePort \<lparr>NGROK_AUTHTOKEN = None,
                connect = (\<lambda>p. if p = Num False 3333 0 then Opens else Fails),
                serve = (\<lambda>p. if p = Num False 0 0 then Some 49152 else None),
                ngrok_forward = (\<lambda>p t. ForwardRejects)\<rparr> (Some (Num False 4000 0)) =
     Inr (Num False 4000 0)
   \<and> findAvailablePort \<lparr>NGROK_AUTHTOKEN = None,
                connect = (\<lambda>p. if p = Num False 3333 0 then Opens else Fails),
                serve = (\<lambda>p. if p = Num False 0 0 then Some 49152 else None),
                ngrok_forward = (\<lambda>p t. ForwardRejects)\<rparr> (Some (Num False 3333 0)) =
     Inr (Num False 49152 0)"
  using findAvailablePort_preferred [of "\<lparr>NGROK_AUTHTOKEN = None,
                connect = (\<lambda>p. if p = Num False 3333 0 then Opens else Fails),
                serve = (\<lambda>p. if p = Num False 0 0 then Some 49152 else None),
                ngrok_forward = (\<lambda>p t. ForwardRejects)\<rparr>" "Num False 4000 0" None ServeError]
   findAvailablePort_preferred [of "\<lparr>NGROK_AUTHTOKEN = None,
                connect = (\<lambda>p. if p = Num False 3333 0 then Opens else Fails),
                serve = (\<lambda>p. if p = Num False 0 0 then Some 49152 else None),
                ngrok_forward = (\<lambda>p t. ForwardRejects)\<rparr>" "Num False 3333 0" None ServeError]
  by simp

text \<open>
  Claim C8 as stated fails. The preferred port 65536 is given and no listener is bound
  to it, and an ephemeral port can be had; \<^verbatim>\<open>Bun.connect\<close> throws on the number, and
  \<^verbatim>\<open>findAvailablePort\<close> neither returns the preferred port nor falls back: it fails.
\<close>

theorem port_out_of_range_counterexample:
  "findAvailablePort \<lparr>NGROK_AUTHTOKEN = None,
                connect = (\<lambda>p. if p = Num False 65536 0 then Throws else Fails),
                serve = (\<lambda>p. if p = Num False 0 0 then Some 49152 else None),
                ngrok_forward = (\<lambda>p t. ForwardRejects)\<rparr> (Some (Num False 65536 0)) =
     Inl RangeError
   \<and> ephemeral_port \<lparr>NGROK_AUTHTOKEN = None,
                connect = (\<lambda>p. if p = Num False 65536 0 then Throws else Fails),
                serve = (\<lambda>p. if p = Num False 0 0 then Some 49152 else None),
                ngrok_forward = (\<lambda>p t. ForwardRejects)\<rparr> = Inr (Num False 49152 0)"
  by (simp add: findAvailablePort_def isPortInUse_def ephemeral_port_def)

text \<open>
  Claim C5, at the input where the code departs from it. With a token at hand and
  \<^verbatim>\<open>ngrok.forward\<close> rejecting (a token the service refuses, a service out of reach),
  \<^verbatim>\<open>debug_start\<close> does not complete: the rejection leaves \<^verbatim>\<open>startTunnel\<close> and
  \<^verbatim>\<open>debug_start\<close> uncaught, after the server was created and stored. The session is
  left with a server and without the active flag and the URL.
\<close>

theorem start_fails_when_forward_rejects:
  assumes "server s = None" and "findAvailablePort e port_arg = Inr port"
    and "serve e port = Some bound" and "NGROK_AUTHTOKEN e = Some t" and "t \<noteq> []"
    and "ngrok_forward e port t = ForwardRejects"
  shows "debug_start e directory port_arg s =
     (Inl ForwardError,
      s\<lparr>server := Some \<lparr>server_port = bound, server_logPath = getLogPath directory\<rparr>\<rparr>)"
  using assms
  by (simp add: debug_start_def startTunnel_def Let_def)

theorem start_fails_when_forward_rejects_witness:
  "debug_start \<lparr>NGROK_AUTHTOKEN = Some ''bad'', connect = (\<lambda>p. Fails),
                serve = (\<lambda>p. Some 3333), ngrok_forward = (\<lambda>p t. ForwardRejects)\<rparr>
      ''/w'' (Some (Num False 3333 0)) (initial_plugin Map.empty) =
     (Inl ForwardError,
      (initial_plugin Map.empty)\<lparr>server :=
         Some \<lparr>server_port = 3333, server_logPath = ''/w/.opencode/debug.log''\<rparr>\<rparr>)"
  using start_fails_when_forward_rejects [of "initial_plugin Map.empty"
      "\<lparr>NGROK_AUTHTOKEN = Some ''bad'', connect = (\<lambda>p. Fails),
                serve = (\<lambda>p. Some 3333), ngrok_forward = (\<lambda>p t. ForwardRejects)\<rparr>"
      "Some (Num False 3333 0)" "Num False 3333 0" 3333 "''bad''" "''/w''"]
  by (simp add: initial_plugin_def findAvailablePort_def isPortInUse_def getLogPath_def
      config_def defaultConfig_def)

text \<open>The variables a failed start leaves behind contradict each other: the status
  reports no active session, and the next start reports a running server.\<close>

lemma after_failed_start:
  assumes "server s = Some srv" and "\<not> debugModeActive s"
  shows "fst (debug_status s) =
       ''Debug mode is **not active**.\<newline>\<newline>Use debug_start to begin a debugging session.''
     \<and> fst (debug_start e directory port_arg s) =
       Inr (already_running_message (effective_url srv (tunnel s)))"
  using assms by (simp add: debug_status_def debug_start_def)

text \<open>The part of the claim the code keeps: without a token \<^verbatim>\<open>startTunnel\<close> returns
  \<^verbatim>\<open>null\<close> at once, and the start completes on the local URL.\<close>

lemma startTunnel_no_token:
  "NGROK_AUTHTOKEN e = None \<Longrightarrow> startTunnel e port None s = (Inr None, s)"
  by (simp add: startTunnel_def)

lemma start_without_token:
  assumes "server s = None" and "findAvailablePort e port_arg = Inr port"
    and "serve e port = Some bound" and "NGROK_AUTHTOKEN e = None"
    and "storedNgrokToken s = None"
  shows "debug_start e directory port_arg s =
     (Inr (started_message (''http://localhost:'' @ number_to_string port @ ''/debug'')),
      s\<lparr>server := Some \<lparr>server_port = bound, server_logPath = getLogPath directory\<rparr>,
        debugModeActive := True,
        activeDebugUrl := Some (''http://localhost:'' @ number_to_string port @ ''/debug'')\<rparr>)"
  using assms
  by (simp add: debug_start_def startTunnel_def Let_def buildDebugUrl_def config_def
      defaultConfig_def del: number_to_string.simps)

section \<open>Reading and clearing the log\<close>

text \<open>
  Claim C7. \<^verbatim>\<open>debug_stop\<close> leaves every file as it was, so \<^verbatim>\<open>debug_read\<close> answers after
  it what it answered before, for every log content and tail. \<^verbatim>\<open>debug_clear\<close> on an
  existing log file makes its content empty (the file stays), and \<^verbatim>\<open>debug_read\<close> then
  finds no line and reports the log empty; on a log file that was never created it
  reports that the log does not exist yet and changes nothing.
\<close>

theorem stop_keeps_log_clear_empties:
  "files (snd (debug_stop s)) = files s
   \<and> fst (debug_read directory tail (snd (debug_stop s))) = fst (debug_read directory tail s)
   \<and> (files s (getLogPath directory) \<noteq> None \<longrightarrow>
        files (snd (debug_clear directory s)) = (files s)(getLogPath directory \<mapsto> [])
        \<and> fst (debug_clear directory s) =
            ''Debug log cleared: .opencode/debug.log\<newline>\<newline>Ready for fresh debug data.''
        \<and> log_lines [] = []
        \<and> fst (debug_read directory tail (snd (debug_clear directory s))) =
            ''Debug log is empty.\<newline>\<newline>**Tip:** The instrumented code paths may not have been executed. Ask the user to reproduce the issue.'')
   \<and> (files s (getLogPath directory) = None \<longrightarrow>
        debug_clear directory s = (''Debug log does not exist yet: .opencode/debug.log'', s))"
proof -
  have a: "fst (debug_read directory tail (snd (debug_stop s))) =
      fst (debug_read directory tail s)"
    by (rule debug_read_files) (rule debug_stop_files)
  have b: "files s (getLogPath directory) = None \<longrightarrow>
        debug_clear directory s = (''Debug log does not exist yet: .opencode/debug.log'', s)"
    by (simp add: debug_clear_def getLogDisplayPath_def config_def defaultConfig_def)
  have c: "files s (getLogPath directory) \<noteq> None \<longrightarrow>
        fst (debug_read directory tail (snd (debug_clear directory s))) =
            ''Debug log is empty.\<newline>\<newline>**Tip:** The instrumented code paths may not have been executed. Ask the user to reproduce the issue.''"
    by (simp add: debug_clear_existing debug_read_empty)
  show ?thesis
    using a b c debug_stop_files [of s] debug_clear_existing [of s directory] log_lines_empty
    by simp
qed

theorem stop_keeps_log_clear_empties_witness:
  "fst (debug_read ''/w'' None (snd (debug_stop
        ((initial_plugin [''/w/.opencode/debug.log'' \<mapsto> ''[T] A\<newline>''])\<lparr>server :=
           Some \<lparr>server_port = 3333, server_logPath = ''/w/.opencode/debug.log''\<rparr>\<rparr>)))) =
     fst (debug_read ''/w'' None
        ((initial_plugin [''/w/.opencode/debug.log'' \<mapsto> ''[T] A\<newline>''])\<lparr>server :=
           Some \<lparr>server_port = 3333, server_logPath = ''/w/.opencode/debug.log''\<rparr>\<rparr>))
   \<and> files (snd (debug_clear ''/w''
        (initial_plugin [''/w/.opencode/debug.log'' \<mapsto> ''[T] A\<newline>'']))) =
       [''/w/.opencode/debug.log'' \<mapsto> []]
   \<and> debug_clear ''/w'' (initial_plugin Map.empty) =
       (''Debug log does not exist yet: .opencode/debug.log'', initial_plugin Map.empty)"
  using stop_keeps_log_clear_empties [of
      "(initial_plugin [''/w/.opencode/debug.log'' \<mapsto> ''[T] A\<newline>''])\<lparr>server :=
           Some \<lparr>server_port = 3333, server_logPath = ''/w/.opencode/debug.log''\<rparr>\<rparr>"
      "''/w''" None]
    stop_keeps_log_clear_empties [of
      "initial_plugin [''/w/.opencode/debug.log'' \<mapsto> ''[T] A\<newline>'']" "''/w''" None]
    stop_keeps_log_clear_empties [of "initial_plugin Map.empty" "''/w''" None]
  by (simp add: initial_plugin_def getLogPath_def config_def defaultConfig_def)

text \<open>The lines of a small log, and of the log whose last label ends in a space.\<close>

lemma log_lines_abc:
  "log_lines ''[T] A\<newline>[T] B\<newline>[T] C\<newline>'' = [''[T] A'', ''[T] B'', ''[T] C'']"
  by (simp add: log_lines_def trim_def white_space_def strip.simps)

lemma log_lines_a: "log_lines ''[T] A\<newline>'' = [''[T] A'']"
  by (simp add: log_lines_def trim_def white_space_def strip.simps)

lemma log_lines_x: "log_lines ''[T] x \<newline>'' = [''[T] x'']"
  by (simp add: log_lines_def trim_def white_space_def strip.simps)

text \<open>A label that ends in U+00A0, the no-break space, loses it as well.\<close>

lemma log_lines_no_break_space:
  "log_lines (''[T] x'' @ [CHR 0xC2, CHR 0xA0, CHR 0x0A]) = [''[T] x'']"
  "ends_with_space (''[T] x'' @ [CHR 0xC2, CHR 0xA0])"
  by (simp_all add: log_lines_def trim_def white_space_def strip.simps ends_with_space_def)

text \<open>A record ingested by the running session is still read after the stop.\<close>

lemma session_survives_stop:
  "fst (debug_read ''/w'' None (snd (debug_stop (snd (serve_request ''T''
      \<lparr>req_method = ''POST'', req_pathname = ''/debug'',
       req_json = Some (JObj [(''label'', JStr ''A'')])\<rparr>
      ((initial_plugin Map.empty)\<lparr>server :=
          Some \<lparr>server_port = 3333, server_logPath = ''/w/.opencode/debug.log''\<rparr>\<rparr>)))))) =
   read_message [''[T] A'']"
  by (simp add: serve_request_def createDebugServer_fetch_def config_def defaultConfig_def
      initial_plugin_def appendToLog_def log_line_def debug_stop_def stopServer_def
      debug_read_def getLogPath_def log_lines_a tail_output_def Let_def
      jsonResponse_def)

text \<open>
  Claim C9, as the code has it. \<^verbatim>\<open>debug_read\<close> strips the white space, of ASCII and of
  Unicode, at both ends of the whole content, splits the rest at line breaks and drops
  the empty pieces. With a tail above 0 it answers with the last tail of these lines in
  file order (all of them when there are fewer), with no tail or a tail of 0 or less
  with all of them. These lines are the file's own non-empty lines whenever the content,
  apart from line breaks at its ends, neither begins nor ends with a white-space
  character.
\<close>

theorem debug_read_tail:
  "tail_output tail (log_lines content) =
     (case tail of
        None \<Rightarrow> log_lines content
      | Some t \<Rightarrow> if 0 < t then drop (length (log_lines content) - nat t) (log_lines content)
                  else log_lines content)
   \<and> log_lines content = filter (\<lambda>l. l \<noteq> []) (split_nl (trim content))
   \<and> (files s (getLogPath directory) = Some content \<and> log_lines content \<noteq> [] \<longrightarrow>
        debug_read directory tail s = (read_message (tail_output tail (log_lines content)), s))
   \<and> (content = pre @ mid @ post \<and> set pre \<subseteq> {CHR 0x0A} \<and> set post \<subseteq> {CHR 0x0A}
        \<and> (mid = [] \<or> (\<not> begins_with_space mid \<and> \<not> ends_with_space mid)) \<longrightarrow>
        log_lines content = filter (\<lambda>l. l \<noteq> []) (split_nl content))"
proof -
  have 1: "files s (getLogPath directory) = Some content \<and> log_lines content \<noteq> [] \<longrightarrow>
        debug_read directory tail s = (read_message (tail_output tail (log_lines content)), s)"
    by (simp add: debug_read_def Let_def)
  have 2: "content = pre @ mid @ post \<and> set pre \<subseteq> {CHR 0x0A} \<and> set post \<subseteq> {CHR 0x0A}
        \<and> (mid = [] \<or> (\<not> begins_with_space mid \<and> \<not> ends_with_space mid)) \<longrightarrow>
        log_lines content = filter (\<lambda>l. l \<noteq> []) (split_nl content)"
    using log_lines_clean [of pre post mid] by blast
  have 3: "log_lines content = filter (\<lambda>l. l \<noteq> []) (split_nl (trim content))"
    by (simp add: log_lines_def)
  show ?thesis
    using tail_output_eq [of tail "log_lines content"] 1 2 3 by blast
qed

theorem debug_read_tail_witness:
  "debug_read ''/w'' (Some 2)
     (initial_plugin [''/w/.opencode/debug.log'' \<mapsto> ''[T] A\<newline>[T] B\<newline>[T] C\<newline>'']) =
     (read_message [''[T] B'', ''[T] C''],
      initial_plugin [''/w/.opencode/debug.log'' \<mapsto> ''[T] A\<newline>[T] B\<newline>[T] C\<newline>''])
   \<and> log_lines ''[T] A\<newline>[T] B\<newline>[T] C\<newline>'' =
       filter (\<lambda>l. l \<noteq> []) (split_nl ''[T] A\<newline>[T] B\<newline>[T] C\<newline>'')
   \<and> tail_output (Some 5) (log_lines ''[T] A\<newline>[T] B\<newline>[T] C\<newline>'') =
       [''[T] A'', ''[T] B'', ''[T] C'']
   \<and> tail_output (Some 0) (log_lines ''[T] A\<newline>[T] B\<newline>[T] C\<newline>'') =
       [''[T] A'', ''[T] B'', ''[T] C'']"
proof -
  let ?c = "''[T] A\<newline>[T] B\<newline>[T] C\<newline>''"
  let ?s = "initial_plugin [''/w/.opencode/debug.log'' \<mapsto> ?c]"
  note L = log_lines_abc
  have P: "files ?s (getLogPath ''/w'') = Some ?c"
    by (simp add: initial_plugin_def getLogPath_def config_def defaultConfig_def)
  have t2: "tail_output (Some 2) (log_lines ?c) = [''[T] B'', ''[T] C'']"
    using debug_read_tail [of "Some 2" ?c ?s "''/w''" "[]" "''[T] A\<newline>[T] B\<newline>[T] C''"
        "''\<newline>''", THEN conjunct1] L
    by simp
  have t5: "tail_output (Some 5) (log_lines ?c) = [''[T] A'', ''[T] B'', ''[T] C'']"
    using debug_read_tail [of "Some 5" ?c ?s "''/w''" "[]" "''[T] A\<newline>[T] B\<newline>[T] C''"
        "''\<newline>''", THEN conjunct1] L
    by simp
  have t0: "tail_output (Some 0) (log_lines ?c) = [''[T] A'', ''[T] B'', ''[T] C'']"
    using debug_read_tail [of "Some 0" ?c ?s "''/w''" "[]" "''[T] A\<newline>[T] B\<newline>[T] C''"
        "''\<newline>''", THEN conjunct1] L
    by simp
  have "log_lines ?c \<noteq> []"
    using L by simp
  with P have r: "debug_read ''/w'' (Some 2) ?s =
      (read_message (tail_output (Some 2) (log_lines ?c)), ?s)"
    using debug_read_tail [of "Some 2" ?c ?s "''/w''" "[]" "''[T] A\<newline>[T] B\<newline>[T] C''"
        "''\<newline>''", THEN conjunct2, THEN conjunct2, THEN conjunct1]
    by blast
  have "\<not> begins_with_space ''[T] A\<newline>[T] B\<newline>[T] C''"
    and "\<not> ends_with_space ''[T] A\<newline>[T] B\<newline>[T] C''"
    by (simp_all add: begins_with_space_def ends_with_space_def white_space_def)
  then have f: "log_lines ?c = filter (\<lambda>l. l \<noteq> []) (split_nl ?c)"
    using debug_read_tail [of "Some 2" ?c ?s "''/w''" "[]" "''[T] A\<newline>[T] B\<newline>[T] C''"
        "''\<newline>''", THEN conjunct2, THEN conjunct2, THEN conjunct2]
    by simp
  show ?thesis
    unfolding r t2 t5 t0 using f by simp
qed

text \<open>
  Claim C9 as stated fails. A record whose label ends in a space, written last, gives a
  file that splits at its line break into one non-empty line, ending in that space, and
  an empty rest; \<^verbatim>\<open>debug_read\<close> with a tail of 1 answers with the line without the
  space, which is not a line of the file.
\<close>

theorem read_exact_lines_counterexample:
  "appendToLog ''T'' ''/w/.opencode/debug.log'' (Some (JStr ''x '')) None Map.empty =
       Inr [''/w/.opencode/debug.log'' \<mapsto> ''[T] x \<newline>'']
   \<and> files (initial_plugin [''/w/.opencode/debug.log'' \<mapsto> ''[T] x \<newline>''])
         (getLogPath ''/w'') = Some ''[T] x \<newline>''
   \<and> split_nl ''[T] x \<newline>'' = [''[T] x '', []]
   \<and> debug_read ''/w'' (Some 1)
         (initial_plugin [''/w/.opencode/debug.log'' \<mapsto> ''[T] x \<newline>'']) =
       (read_message [''[T] x''],
        initial_plugin [''/w/.opencode/debug.log'' \<mapsto> ''[T] x \<newline>''])
   \<and> [''[T] x''] \<noteq> [''[T] x '']"
  by (simp add: debug_read_def initial_plugin_def getLogPath_def config_def defaultConfig_def
      log_lines_x tail_output_def slice_def appendToLog_def log_line_def)

section \<open>Appends that interleave\<close>

text \<open>A call alone runs as \<^verbatim>\<open>appendToLog\<close> was defined: three steps complete it.\<close>

lemma append_task_alone:
  "log_line ts label data = Inr line \<Longrightarrow>
     run_schedule logPath [0, 0, 0] ([start_append ts label data], fsys) =
       ([Finished], case appendToLog ts logPath label data fsys of Inr fsys' \<Rightarrow> fsys')"
  by (simp add: start_append_def appendToLog_def Let_def split: option.splits)

text \<open>
  Claim C2, at the input where the code departs from it. Two ingest requests arrive
  together; each call of \<^verbatim>\<open>appendToLog\<close> checks and reads the file before the other
  writes. Both calls complete, and the file holds its old content followed by the second
  record only: the first record is lost, whatever the file held before.
\<close>

theorem concurrent_appends_lose_a_record:
  "run_schedule logPath [0, 1, 0, 1, 0, 1] ([AwaitExists line1, AwaitExists line2], fsys) =
     ([Finished, Finished],
      fsys(logPath \<mapsto> (case fsys logPath of Some t \<Rightarrow> t | None \<Rightarrow> []) @ line2))
   \<and> (log_line t1 label1 data1 = Inr line1 \<and> log_line t2 label2 data2 = Inr line2 \<longrightarrow>
        run_schedule logPath [0, 1, 0, 1, 0, 1]
          ([start_append t1 label1 data1, start_append t2 label2 data2], fsys) =
        ([Finished, Finished],
         fsys(logPath \<mapsto> (case fsys logPath of Some t \<Rightarrow> t | None \<Rightarrow> []) @ line2)))"
  by (simp add: start_append_def split: option.splits)

theorem concurrent_appends_lose_a_record_witness:
  "run_schedule ''log'' [0, 1, 0, 1, 0, 1]
     ([start_append ''T1'' (Some (JStr ''A'')) None, start_append ''T2'' (Some (JStr ''B'')) None],
      Map.empty) =
   ([Finished, Finished], [''log'' \<mapsto> ''[T2] B\<newline>''])"
  using concurrent_appends_lose_a_record [of "''log''" "''[T1] A\<newline>''" "''[T2] B\<newline>''"
      Map.empty "''T1''" "Some (JStr ''A'')" None "''T2''" "Some (JStr ''B'')" None]
  by (simp add: log_line_def)

end
